theory Spec2Isabelle
  imports Main "HOL-Library.Word" "HOL-Library.Multiset"
begin

unbundle bit_operations_syntax

section \<open>JavaScript values\<close>

text \<open>
  A JavaScript string is a sequence of UTF-16 code units: \<open>s.length\<close> counts code units
  and \<open>s.trim()\<close> removes the code units of the ECMAScript classes WhiteSpace and
  LineTerminator from both ends.
\<close>

type_synonym jsstring = "16 word list"

definition ascii :: "string \<Rightarrow> jsstring" where
  "ascii s = map (\<lambda>c. of_nat (of_char c)) s"

definition isWhiteSpace :: "16 word \<Rightarrow> bool" where
  "isWhiteSpace c \<longleftrightarrow>
     c = 0x0009 \<or> c = 0x000A \<or> c = 0x000B \<or> c = 0x000C \<or> c = 0x000D \<or> c = 0x0020 \<or>
     c = 0x00A0 \<or> c = 0x1680 \<or> (0x2000 \<le> c \<and> c \<le> 0x200A) \<or> c = 0x2028 \<or>
     c = 0x2029 \<or> c = 0x202F \<or> c = 0x205F \<or> c = 0x3000 \<or> c = 0xFEFF"

definition trim :: "jsstring \<Rightarrow> jsstring" where
  "trim s = rev (dropWhile isWhiteSpace (rev (dropWhile isWhiteSpace s)))"

text \<open>
  A MongoDB ObjectId is a 12-byte value; \<open>toString()\<close> renders it as 24 lower-case
  hexadecimal digits, most significant first.
\<close>

type_synonym objectid = "96 word"

definition hexDigit :: "nat \<Rightarrow> 16 word" where
  "hexDigit d = (if d < 10 then of_nat (48 + d) else of_nat (87 + d))"

definition oidToString :: "objectid \<Rightarrow> jsstring" where
  "oidToString w = map (\<lambda>i. hexDigit (unat (drop_bit (4 * (23 - i)) w AND 15))) [0..<24]"

text \<open>
  The values that cross the wire are JSON-like. Numbers are only ever tested for
  truthiness or are the literal 0 here, so they are integers; \<open>JDate\<close> carries
  milliseconds since the epoch. Objects are property lists with unique keys.
\<close>

datatype jsval =
    JUndefined
  | JNull
  | JBool bool
  | JNum int
  | JStr jsstring
  | JOid objectid
  | JDate nat
  | JArr "jsval list"
  | JObj "(string \<times> jsval) list"

fun truthy :: "jsval \<Rightarrow> bool" where
  "truthy JUndefined = False"
| "truthy JNull = False"
| "truthy (JBool b) = b"
| "truthy (JNum n) = (n \<noteq> 0)"
| "truthy (JStr s) = (s \<noteq> [])"
| "truthy _ = True"

section \<open>The Message model (models/Message.js)\<close>

record message =
  msg_id :: objectid
  content :: jsstring
  userId :: objectid
  username :: jsstring
  isAnonymous :: bool
  timestamp :: nat
  isDeleted :: bool

section \<open>The anonymization boundary (anonymizeMessage)\<close>

text \<open>
  \<open>currentUserId\<close> is \<open>null\<close> (here \<open>None\<close>) or the identity string taken from a
  verified token. The conditional tests its truthiness, so the empty string behaves
  like \<open>null\<close>; \<open>toString()\<close> of a string is the string itself.
\<close>

definition anonymizeMessage :: "message \<Rightarrow> jsstring option \<Rightarrow> (string \<times> jsval) list" where
  "anonymizeMessage message currentUserId =
     [(''_id'', JOid (msg_id message)),
      (''content'', JStr (content message)),
      (''username'', JStr (ascii ''Anonymous'')),
      (''timestamp'', JDate (timestamp message)),
      (''isAnonymous'', JBool True),
      (''isOwnMessage'', JBool
         (case currentUserId of
            None \<Rightarrow> False
          | Some u \<Rightarrow> if u \<noteq> [] then oidToString (userId message) = u else False))]"

section \<open>Collaborators: token verification, the User collection, the Message collection\<close>

text \<open>
  \<open>jwt.verify\<close> and the cast of an identity string to an ObjectId belong to libraries;
  the handlers are parametric in them. \<open>jwt_verify\<close> yields the decoded payload
  \<open>{userId, email}\<close> or \<open>None\<close> when verification reports an error.
  \<open>User.findById\<close> is a lookup in the User collection that yields \<open>null\<close> (here
  \<open>None\<close>) when there is no such record. An unreachable database is not modelled.
\<close>

record decoded =
  d_userId :: jsstring
  d_email :: jsstring

record lib =
  jwt_verify :: "jsstring \<Rightarrow> decoded option"
  castObjectId :: "jsstring \<Rightarrow> objectid option"

record user =
  user_name :: jsstring
  user_email :: jsstring

text \<open>
  \<open>new Message({content, userId, username, isAnonymous: true})\<close> followed by
  \<open>save()\<close>. The driver supplies the fresh \<open>_id\<close> and \<open>Date.now\<close> the timestamp.
  \<open>save\<close> throws (here \<open>None\<close>) when the schema rejects the document (\<open>userId\<close> not
  castable, \<open>username\<close> or \<open>content\<close> missing or empty, \<open>content\<close> longer than 500) or
  when the \<open>_id\<close> is already taken. Otherwise the document is appended to the
  collection.
\<close>

definition Message_save ::
  "lib \<Rightarrow> objectid \<Rightarrow> nat \<Rightarrow> jsstring \<Rightarrow> jsstring \<Rightarrow> jsstring option \<Rightarrow> message list
     \<Rightarrow> message option" where
  "Message_save l oid now c uid uname db =
     (case castObjectId l uid of
        None \<Rightarrow> None
      | Some u \<Rightarrow>
          (case uname of
             None \<Rightarrow> None
           | Some n \<Rightarrow>
               if n = [] \<or> c = [] \<or> 500 < length c \<or> oid \<in> msg_id ` set db then None
               else Some \<lparr>msg_id = oid, content = c, userId = u, username = n,
                          isAnonymous = True, timestamp = now, isDeleted = False\<rparr>))"

text \<open>
  \<open>Message.find({isDeleted: false}).sort({timestamp: -1})\<close>. The sort key is the
  timestamp alone. MongoDB leaves the relative order of documents with equal sort
  keys to the engine; that choice is the rank \<open>tie\<close>, an input of every query.
\<close>

definition Message_find_sorted :: "(message \<Rightarrow> nat) \<Rightarrow> message list \<Rightarrow> message list" where
  "Message_find_sorted tie db =
     sort_key (\<lambda>m. - int (timestamp m)) (sort_key tie (filter (\<lambda>m. \<not> isDeleted m) db))"

text \<open>\<open>.limit(limit).skip(skip)\<close>: the cursor skips first, then limits.\<close>

definition recent :: "(message \<Rightarrow> nat) \<Rightarrow> nat \<Rightarrow> nat \<Rightarrow> message list \<Rightarrow> message list" where
  "recent tie limit skip db = take limit (drop skip (Message_find_sorted tie db))"

section \<open>Server state\<close>

text \<open>
  \<open>connectedUsers\<close> is a JavaScript \<open>Map\<close> from identity string to
  \<open>{socketId, name, email}\<close>: an association list in insertion order; \<open>set\<close> on a
  present key replaces the value in place, \<open>delete\<close> removes the key.
\<close>

record userInfo =
  socketId :: string
  name :: jsstring
  email :: jsstring

fun Map_set :: "'k \<Rightarrow> 'v \<Rightarrow> ('k \<times> 'v) list \<Rightarrow> ('k \<times> 'v) list" where
  "Map_set k v [] = [(k, v)]"
| "Map_set k v ((k', v') # kvs) =
     (if k' = k then (k, v) # kvs else (k', v') # Map_set k v kvs)"

definition Map_delete :: "'k \<Rightarrow> ('k \<times> 'v) list \<Rightarrow> ('k \<times> 'v) list" where
  "Map_delete k kvs = filter (\<lambda>kv. fst kv \<noteq> k) kvs"

text \<open>
  The connection handler is an \<open>async\<close> function with two \<open>await\<close>s: the user
  lookup and the query for the recent messages. The event listeners of a socket
  are registered at its very end, so a socket that passed the middleware is first
  waiting for the user lookup, then for the recent messages, and only then
  listening. Events of the client can arrive in between.
\<close>

datatype stage = AwaitingUser | AwaitingRecent | Listening

text \<open>
  A socket that passed the middleware: its id, the properties the server code
  attaches to it, how far its connection handler has run, and whether the client is
  still connected. \<open>userName\<close> stays undefined (\<open>None\<close>) until the user lookup has
  succeeded.
\<close>

record socket =
  sock_id :: string
  sock_userId :: jsstring
  sock_userEmail :: jsstring
  sock_userName :: "jsstring option"
  sock_stage :: stage
  sock_connected :: bool

text \<open>
  Emissions: \<open>socket.emit\<close> (to that socket), \<open>io.to(id).emit\<close> (to the room of one
  socket id) and \<open>io.emit\<close> (to every connected socket). The server state records
  the calls in order, whether or not a client is there to receive them.
\<close>

datatype target = ToSocket string | ToRoom string | ToAll

type_synonym emission = "target \<times> string \<times> jsval"

record server =
  User_db :: "jsstring \<Rightarrow> user option"
  Message_db :: "message list"
  connectedUsers :: "(jsstring \<times> userInfo) list"
  sockets :: "socket list"
  emitted :: "emission list"

definition emit :: "emission \<Rightarrow> server \<Rightarrow> server" where
  "emit e st = st\<lparr>emitted := emitted st @ [e]\<rparr>"

definition error_message :: "string \<Rightarrow> jsval" where
  "error_message txt = JObj [(''message'', JStr (ascii txt))]"

definition error_body :: "string \<Rightarrow> jsval" where
  "error_body txt = JObj [(''error'', JStr (ascii txt))]"

section \<open>Socket.IO: handshake and connection\<close>

text \<open>
  \<open>authenticateSocket\<close>: \<open>None\<close> stands for \<open>next(new Error('Authentication error'))\<close>,
  which refuses the connection; the token is absent (\<open>None\<close>), empty or a string.
\<close>

definition authenticateSocket :: "lib \<Rightarrow> jsstring option \<Rightarrow> decoded option" where
  "authenticateSocket l token =
     (case token of
        None \<Rightarrow> None
      | Some t \<Rightarrow> if t = [] then None else jwt_verify l t)"

definition update_socket :: "string \<Rightarrow> (socket \<Rightarrow> socket) \<Rightarrow> socket list \<Rightarrow> socket list" where
  "update_socket sid f ss = map (\<lambda>s. if sock_id s = sid then f s else s) ss"

text \<open>
  The middleware has called \<open>next()\<close>: the socket exists, with \<open>userId\<close> and
  \<open>userEmail\<close> set, and the connection handler has started \<open>User.findById\<close>.
  Socket.IO gives every connection an id of its own.
\<close>

definition open_socket :: "string \<Rightarrow> decoded \<Rightarrow> server \<Rightarrow> server" where
  "open_socket sid d st =
     st\<lparr>sockets := sockets st @
          [\<lparr>sock_id = sid, sock_userId = d_userId d, sock_userEmail = d_email d,
            sock_userName = None, sock_stage = AwaitingUser, sock_connected = True\<rparr>]\<rparr>"

definition handshake :: "lib \<Rightarrow> string \<Rightarrow> jsstring option \<Rightarrow> server \<Rightarrow> server" where
  "handshake l sid token st =
     (case authenticateSocket l token of
        None \<Rightarrow> st
      | Some d \<Rightarrow> open_socket sid d st)"

text \<open>
  The connection handler resumes after \<open>await User.findById(...)\<close>. A lookup that
  yields \<open>null\<close> makes \<open>user.name\<close> throw; the \<open>catch\<close> only logs and the listeners
  are registered, so the socket listens with no \<open>userName\<close> and no directory entry.
  Otherwise \<open>userName\<close> and the directory entry are set and the query for the
  recent messages is started.
\<close>

definition user_found :: "string \<Rightarrow> server \<Rightarrow> server" where
  "user_found sid st =
     (case find (\<lambda>s. sock_id s = sid \<and> sock_stage s = AwaitingUser) (sockets st) of
        None \<Rightarrow> st
      | Some socket \<Rightarrow>
          (case User_db st (sock_userId socket) of
             None \<Rightarrow>
               st\<lparr>sockets := update_socket sid (\<lambda>s. s\<lparr>sock_stage := Listening\<rparr>) (sockets st)\<rparr>
           | Some user \<Rightarrow>
               st\<lparr>sockets :=
                    update_socket sid
                      (\<lambda>s. s\<lparr>sock_userName := Some (user_name user),
                              sock_stage := AwaitingRecent\<rparr>) (sockets st),
                  connectedUsers :=
                    Map_set (sock_userId socket)
                      \<lparr>socketId = sid, name = user_name user, email = user_email user\<rparr>
                      (connectedUsers st)\<rparr>))"

text \<open>
  The connection handler resumes after \<open>await Message.find(...)\<close>: it emits the
  anonymized recent messages, oldest first, to the socket and registers the
  listeners.
\<close>

definition recent_found :: "(message \<Rightarrow> nat) \<Rightarrow> string \<Rightarrow> server \<Rightarrow> server" where
  "recent_found tie sid st =
     (case find (\<lambda>s. sock_id s = sid \<and> sock_stage s = AwaitingRecent) (sockets st) of
        None \<Rightarrow> st
      | Some socket \<Rightarrow>
          (let recentMessages = recent tie 50 0 (Message_db st);
               anonymizedMessages =
                 map (\<lambda>msg. JObj (anonymizeMessage msg (Some (sock_userId socket))))
                   recentMessages
           in st\<lparr>sockets := update_socket sid (\<lambda>s. s\<lparr>sock_stage := Listening\<rparr>) (sockets st),
                  emitted := emitted st @
                    [(ToSocket sid, ''recent_messages'', JArr (rev anonymizedMessages))]\<rparr>))"

text \<open>A handshake whose connection handler runs to its end before anything else happens.\<close>

definition connect :: "lib \<Rightarrow> (message \<Rightarrow> nat) \<Rightarrow> string \<Rightarrow> jsstring option \<Rightarrow> server \<Rightarrow> server" where
  "connect l tie sid token st =
     (case authenticateSocket l token of
        None \<Rightarrow> st
      | Some d \<Rightarrow> recent_found tie sid (user_found sid (open_socket sid d st)))"

section \<open>Socket.IO: the send_message handler\<close>

text \<open>
  \<open>const { content } = data\<close>: destructuring \<open>undefined\<close> or \<open>null\<close> throws (\<open>None\<close>);
  any other value yields its \<open>content\<close> property or \<open>undefined\<close>.
\<close>

fun get_content :: "jsval \<Rightarrow> jsval option" where
  "get_content JUndefined = None"
| "get_content JNull = None"
| "get_content (JObj fs) =
     Some (case map_of fs ''content'' of None \<Rightarrow> JUndefined | Some v \<Rightarrow> v)"
| "get_content _ = Some JUndefined"

text \<open>
  The two checks both handlers make, in the source's order:
  \<open>!content || content.trim().length === 0\<close>, then \<open>content.length > 500\<close>.
  A truthy value that is not a string has no \<open>trim\<close> method, so the call throws
  (\<open>NotAString\<close>). \<open>Passed\<close> carries \<open>content.trim()\<close>, the text that is stored.
\<close>

datatype check = MessageEmpty | MessageTooLong | NotAString | Passed jsstring

fun validate :: "jsval \<Rightarrow> check" where
  "validate (JStr s) =
     (if s = [] \<or> length (trim s) = 0 then MessageEmpty
      else if 500 < length s then MessageTooLong
      else Passed (trim s))"
| "validate v = (if truthy v then NotAString else MessageEmpty)"

definition fanout :: "message \<Rightarrow> (jsstring \<times> userInfo) list \<Rightarrow> emission list" where
  "fanout message cu =
     map (\<lambda>(userId, userInfo).
            (ToRoom (socketId userInfo), ''new_message'',
             JObj (anonymizeMessage message (Some userId)))) cu"

definition send_message :: "lib \<Rightarrow> objectid \<Rightarrow> nat \<Rightarrow> socket \<Rightarrow> jsval \<Rightarrow> server \<Rightarrow> server" where
  "send_message l oid now socket data st =
     (case get_content data of
        None \<Rightarrow> emit (ToSocket (sock_id socket), ''error'', error_message ''Failed to send message'') st
      | Some c \<Rightarrow>
          (case validate c of
             MessageEmpty \<Rightarrow>
               emit (ToSocket (sock_id socket), ''error'', error_message ''Message cannot be empty'') st
           | MessageTooLong \<Rightarrow>
               emit (ToSocket (sock_id socket), ''error'',
                     error_message ''Message too long (max 500 characters)'') st
           | NotAString \<Rightarrow>
               emit (ToSocket (sock_id socket), ''error'', error_message ''Failed to send message'') st
           | Passed trimmed \<Rightarrow>
               (case Message_save l oid now trimmed (sock_userId socket) (sock_userName socket)
                       (Message_db st) of
                  None \<Rightarrow>
                    emit (ToSocket (sock_id socket), ''error'',
                          error_message ''Failed to send message'') st
                | Some message \<Rightarrow>
                    st\<lparr>Message_db := Message_db st @ [message],
                       emitted := emitted st @ fanout message (connectedUsers st) @
                         [(ToAll, ''new_message'', JObj (anonymizeMessage message None))]\<rparr>)))"

text \<open>
  The same handler in the older copy of the backend
  (OvaCare-main/backend/app.js): identical except that it ends after the loop over
  \<open>connectedUsers\<close>.
\<close>

definition send_message_old :: "lib \<Rightarrow> objectid \<Rightarrow> nat \<Rightarrow> socket \<Rightarrow> jsval \<Rightarrow> server \<Rightarrow> server" where
  "send_message_old l oid now socket data st =
     (case get_content data of
        None \<Rightarrow> emit (ToSocket (sock_id socket), ''error'', error_message ''Failed to send message'') st
      | Some c \<Rightarrow>
          (case validate c of
             MessageEmpty \<Rightarrow>
               emit (ToSocket (sock_id socket), ''error'', error_message ''Message cannot be empty'') st
           | MessageTooLong \<Rightarrow>
               emit (ToSocket (sock_id socket), ''error'',
                     error_message ''Message too long (max 500 characters)'') st
           | NotAString \<Rightarrow>
               emit (ToSocket (sock_id socket), ''error'', error_message ''Failed to send message'') st
           | Passed trimmed \<Rightarrow>
               (case Message_save l oid now trimmed (sock_userId socket) (sock_userName socket)
                       (Message_db st) of
                  None \<Rightarrow>
                    emit (ToSocket (sock_id socket), ''error'',
                          error_message ''Failed to send message'') st
                | Some message \<Rightarrow>
                    st\<lparr>Message_db := Message_db st @ [message],
                       emitted := emitted st @ fanout message (connectedUsers st)\<rparr>)))"

section \<open>Socket.IO: event dispatch and disconnect\<close>

text \<open>
  An event reaches a listener only on a socket that is listening; under any other
  socket id, or before the listeners are registered, it reaches none. A client that
  disconnects before its socket listens is gone without any handler having run. The
  \<open>disconnect\<close> listener deletes the directory entry of the socket's identity. The
  \<open>typing\<close> relay reads and writes neither the collections nor the directory and is
  left out.
\<close>

datatype event = Send_message objectid nat jsval | Ping | Disconnect

definition on_disconnect :: "socket \<Rightarrow> server \<Rightarrow> server" where
  "on_disconnect socket st =
     st\<lparr>connectedUsers := Map_delete (sock_userId socket) (connectedUsers st),
        sockets := filter (\<lambda>s. sock_id s \<noteq> sock_id socket) (sockets st)\<rparr>"

definition deliver :: "lib \<Rightarrow> string \<Rightarrow> event \<Rightarrow> server \<Rightarrow> server" where
  "deliver l sid ev st =
     (case find (\<lambda>s. sock_id s = sid) (sockets st) of
        None \<Rightarrow> st
      | Some socket \<Rightarrow>
          if \<not> sock_connected socket then st
          else if sock_stage socket = Listening then
            (case ev of
               Send_message oid now data \<Rightarrow> send_message l oid now socket data st
             | Ping \<Rightarrow> emit (ToSocket sid, ''pong'', JUndefined) st
             | Disconnect \<Rightarrow> on_disconnect socket st)
          else
            (case ev of
               Disconnect \<Rightarrow>
                 st\<lparr>sockets :=
                      update_socket sid (\<lambda>s. s\<lparr>sock_connected := False\<rparr>) (sockets st)\<rparr>
             | _ \<Rightarrow> st))"

fun deliver_all :: "lib \<Rightarrow> string \<Rightarrow> event list \<Rightarrow> server \<Rightarrow> server" where
  "deliver_all l sid [] st = st"
| "deliver_all l sid (ev # evs) st = deliver_all l sid evs (deliver l sid ev st)"

section \<open>REST: the authenticateToken middleware\<close>

text \<open>\<open>s.split(' ')\<close>: the pieces between single spaces; the empty string gives one empty piece.\<close>

fun split_space :: "jsstring \<Rightarrow> jsstring list" where
  "split_space [] = [[]]"
| "split_space (c # cs) =
     (if c = 0x20 then [] # split_space cs
      else (case split_space cs of
              [] \<Rightarrow> [[c]]
            | p # ps \<Rightarrow> (c # p) # ps))"

text \<open>
  \<open>authHeader && authHeader.split(' ')[1]\<close>, then \<open>!token\<close>: \<open>None\<close> when the header
  is absent or empty, has no second piece, or the second piece is empty.
\<close>

definition bearer_token :: "jsstring option \<Rightarrow> jsstring option" where
  "bearer_token authHeader =
     (case authHeader of
        None \<Rightarrow> None
      | Some h \<Rightarrow>
          (case split_space h of
             _ # t # _ \<Rightarrow> if t = [] then None else Some t
           | _ \<Rightarrow> None))"

type_synonym response = "nat \<times> jsval"

definition authenticateToken :: "lib \<Rightarrow> jsstring option \<Rightarrow> response + decoded" where
  "authenticateToken l authHeader =
     (case bearer_token authHeader of
        None \<Rightarrow> Inl (401, error_body ''Access token required'')
      | Some token \<Rightarrow>
          (case jwt_verify l token of
             None \<Rightarrow> Inl (403, error_body ''Invalid or expired token'')
           | Some u \<Rightarrow> Inr u))"

section \<open>REST: GET /api/chat/messages\<close>

text \<open>
  \<open>parseInt(req.query.limit) || 50\<close> and \<open>parseInt(req.query.page) || 1\<close>: the
  parameter is \<open>None\<close> when absent or not a number, and zero falls back to the
  default too. Negative numbers are not modelled.
\<close>

definition or_default :: "nat option \<Rightarrow> nat \<Rightarrow> nat" where
  "or_default q d = (case q of None \<Rightarrow> d | Some n \<Rightarrow> if n = 0 then d else n)"

definition get_messages ::
  "lib \<Rightarrow> (message \<Rightarrow> nat) \<Rightarrow> jsstring option \<Rightarrow> nat option \<Rightarrow> nat option \<Rightarrow> server \<Rightarrow> response" where
  "get_messages l tie authHeader qlimit qpage st =
     (case authenticateToken l authHeader of
        Inl r \<Rightarrow> r
      | Inr requser \<Rightarrow>
          (let limit = or_default qlimit 50;
               page = or_default qpage 1;
               skip = (page - 1) * limit;
               messages = recent tie limit skip (Message_db st);
               anonymousMessages =
                 map (\<lambda>msg. JObj (anonymizeMessage msg (Some (d_userId requser)))) messages
           in (200, JObj [(''messages'', JArr (rev anonymousMessages)),
                          (''hasMore'', JBool (length messages = limit))])))"

section \<open>REST: POST /api/chat/send\<close>

definition message_doc :: "message \<Rightarrow> jsval" where
  "message_doc m =
     JObj [(''_id'', JOid (msg_id m)), (''content'', JStr (content m)),
           (''userId'', JOid (userId m)), (''username'', JStr (username m)),
           (''isAnonymous'', JBool (isAnonymous m)), (''timestamp'', JDate (timestamp m)),
           (''isDeleted'', JBool (isDeleted m))]"

text \<open>
  The variables the handler has bound when it builds its response: \<open>content\<close>,
  \<open>user\<close> and \<open>message\<close> (besides \<open>req\<close>, \<open>res\<close> and the module's top-level
  constants, none of which is called \<open>messageData\<close>). The \<open>const messageData\<close> of
  the source belongs to the callback passed to \<open>connectedUsers.forEach\<close> and is not
  visible after the loop, so reading it throws a ReferenceError.
\<close>

definition send_scope :: "jsval \<Rightarrow> user \<Rightarrow> message \<Rightarrow> (string \<times> jsval) list" where
  "send_scope c u m =
     [(''content'', c), (''user'', JObj [(''name'', JStr (user_name u))]),
      (''message'', message_doc m)]"

definition post_chat_send ::
  "lib \<Rightarrow> objectid \<Rightarrow> nat \<Rightarrow> jsstring option \<Rightarrow> jsval \<Rightarrow> server \<Rightarrow> response \<times> server" where
  "post_chat_send l oid now authHeader body st =
     (case authenticateToken l authHeader of
        Inl r \<Rightarrow> (r, st)
      | Inr requser \<Rightarrow>
          (case get_content body of
             None \<Rightarrow> ((500, error_body ''Failed to send message''), st)
           | Some c \<Rightarrow>
               (case validate c of
                  MessageEmpty \<Rightarrow> ((400, error_body ''Message cannot be empty''), st)
                | MessageTooLong \<Rightarrow>
                    ((400, error_body ''Message too long (max 500 characters)''), st)
                | NotAString \<Rightarrow> ((500, error_body ''Failed to send message''), st)
                | Passed trimmed \<Rightarrow>
                    (case User_db st (d_userId requser) of
                       None \<Rightarrow> ((500, error_body ''Failed to send message''), st)
                     | Some user \<Rightarrow>
                         (case Message_save l oid now trimmed (d_userId requser)
                                 (Some (user_name user)) (Message_db st) of
                            None \<Rightarrow> ((500, error_body ''Failed to send message''), st)
                          | Some message \<Rightarrow>
                              (let st' = st\<lparr>Message_db := Message_db st @ [message],
                                            emitted := emitted st @
                                              fanout message (connectedUsers st)\<rparr>
                               in (case map_of (send_scope c user message) ''messageData'' of
                                     None \<Rightarrow> ((500, error_body ''Failed to send message''), st')
                                   | Some messageData \<Rightarrow>
                                       ((200, JObj [(''success'', JBool True),
                                                    (''message'', messageData)]), st'))))))))"

section \<open>REST: GET /api/chat/users-online\<close>

definition users_online :: "lib \<Rightarrow> jsstring option \<Rightarrow> server \<Rightarrow> response" where
  "users_online l authHeader st =
     (case authenticateToken l authHeader of
        Inl r \<Rightarrow> r
      | Inr requser \<Rightarrow> (200, JObj [(''count'', JNum 0), (''users'', JArr [])]))"

section \<open>The client (SocketContext)\<close>

text \<open>The interface \<open>AnonymousMessage\<close> of the client; its \<open>_id\<close> is a string.\<close>

record AnonymousMessage =
  am_id :: jsstring
  am_content :: jsstring
  am_username :: jsstring
  am_timestamp :: jsstring
  am_isAnonymous :: bool
  am_isOwnMessage :: bool

definition reanonymize :: "AnonymousMessage \<Rightarrow> AnonymousMessage" where
  "reanonymize msg =
     msg\<lparr>am_username := ascii ''Anonymous'', am_isAnonymous := True,
         am_isOwnMessage := (am_isOwnMessage msg \<or> False)\<rparr>"

text \<open>The updater passed to \<open>setMessages\<close> by the \<open>new_message\<close> listener.\<close>

definition on_new_message :: "AnonymousMessage \<Rightarrow> AnonymousMessage list \<Rightarrow> AnonymousMessage list" where
  "on_new_message message prev =
     (let anonymizedMessage = reanonymize message;
          messageExists = list_ex (\<lambda>msg. am_id msg = am_id anonymizedMessage) prev
      in if messageExists then prev else prev @ [anonymizedMessage])"

text \<open>The \<open>recent_messages\<close> listener replaces the list by the snapshot.\<close>

definition on_recent_messages :: "AnonymousMessage list \<Rightarrow> AnonymousMessage list" where
  "on_recent_messages recentMessages = map reanonymize recentMessages"

datatype client_event = Recent_messages "AnonymousMessage list" | New_message AnonymousMessage

fun client_step :: "AnonymousMessage list \<Rightarrow> client_event \<Rightarrow> AnonymousMessage list" where
  "client_step prev (Recent_messages snapshot) = on_recent_messages snapshot"
| "client_step prev (New_message message) = on_new_message message prev"

definition client_run :: "client_event list \<Rightarrow> AnonymousMessage list" where
  "client_run evs = foldl client_step [] evs"

section \<open>Example data\<close>

text \<open>
  Two registered users, their tokens, and the server after both have connected, in
  that order, to an empty chat.
\<close>

definition alice :: jsstring where
  "alice = ascii ''64f000000000000000000a11''"

definition bob :: jsstring where
  "bob = ascii ''64f000000000000000000b0b''"

definition demo_lib :: lib where
  "demo_lib =
     \<lparr>jwt_verify =
        (\<lambda>t. if t = ascii ''token-a''
              then Some \<lparr>d_userId = alice, d_email = ascii ''a@ova.care''\<rparr>
              else if t = ascii ''token-b''
              then Some \<lparr>d_userId = bob, d_email = ascii ''b@ova.care''\<rparr>
              else None),
      castObjectId =
        (\<lambda>s. if s = alice then Some 0x64f000000000000000000a11
              else if s = bob then Some 0x64f000000000000000000b0b
              else None)\<rparr>"

definition demo_users :: "jsstring \<Rightarrow> user option" where
  "demo_users uid =
     (if uid = alice then Some \<lparr>user_name = ascii ''Alice'', user_email = ascii ''a@ova.care''\<rparr>
      else if uid = bob then Some \<lparr>user_name = ascii ''Bob'', user_email = ascii ''b@ova.care''\<rparr>
      else None)"

definition empty_server :: server where
  "empty_server =
     \<lparr>User_db = demo_users, Message_db = [], connectedUsers = [], sockets = [], emitted = []\<rparr>"

definition two_connected :: server where
  "two_connected =
     connect demo_lib (\<lambda>m. 0) ''s2'' (Some (ascii ''token-b''))
       (connect demo_lib (\<lambda>m. 0) ''s1'' (Some (ascii ''token-a'')) empty_server)"

definition alice_socket :: socket where
  "alice_socket =
     \<lparr>sock_id = ''s1'', sock_userId = alice, sock_userEmail = ascii ''a@ova.care'',
      sock_userName = Some (ascii ''Alice''), sock_stage = Listening, sock_connected = True\<rparr>"

definition bob_socket :: socket where
  "bob_socket =
     \<lparr>sock_id = ''s2'', sock_userId = bob, sock_userEmail = ascii ''b@ova.care'',
      sock_userName = Some (ascii ''Bob''), sock_stage = Listening, sock_connected = True\<rparr>"

definition hello :: jsval where
  "hello = JObj [(''content'', JStr (ascii ''hello''))]"

definition hello_message :: message where
  "hello_message =
     \<lparr>msg_id = 1, content = ascii ''hello'', userId = 0x64f000000000000000000a11,
      username = ascii ''Alice'', isAnonymous = True, timestamp = 1000, isDeleted = False\<rparr>"

text \<open>Contents at the length boundary: 500 letters, 500 letters and a space, 501 letters.\<close>

definition five_hundred :: jsstring where
  "five_hundred = replicate 500 0x61"

definition padded :: jsstring where
  "padded = replicate 500 0x61 @ [0x20]"

definition five_hundred_one :: jsstring where
  "five_hundred_one = replicate 501 0x61"

text \<open>The two copies of one message as a client receives them: targeted, then fallback.\<close>

definition targeted_copy :: AnonymousMessage where
  "targeted_copy =
     \<lparr>am_id = ascii ''000000000000000000000001'', am_content = ascii ''hello'',
      am_username = ascii ''Anonymous'', am_timestamp = ascii ''1970-01-01T00:00:01.000Z'',
      am_isAnonymous = True, am_isOwnMessage = True\<rparr>"

definition fallback_copy :: AnonymousMessage where
  "fallback_copy = targeted_copy\<lparr>am_isOwnMessage := False\<rparr>"

text \<open>
  Messages for the ordering examples: \<open>msg_A\<close>, \<open>msg_B\<close>, \<open>msg_C\<close> were created
  within one millisecond, \<open>later_B\<close> and \<open>later_C\<close> one and two milliseconds after
  \<open>msg_A\<close>. Two engine choices for equal sort keys: ascending or descending id.
\<close>

definition msg_at :: "objectid \<Rightarrow> nat \<Rightarrow> message" where
  "msg_at i t =
     \<lparr>msg_id = i, content = ascii ''hi'', userId = 0x64f000000000000000000a11,
      username = ascii ''Alice'', isAnonymous = True, timestamp = t, isDeleted = False\<rparr>"

definition msg_A :: message where
  "msg_A = msg_at 1 1000"

definition msg_B :: message where
  "msg_B = msg_at 2 1000"

definition msg_C :: message where
  "msg_C = msg_at 3 1000"

definition later_B :: message where
  "later_B = msg_at 2 1001"

definition later_C :: message where
  "later_C = msg_at 3 1002"

definition by_id :: "message \<Rightarrow> nat" where
  "by_id m = unat (msg_id m)"

definition by_id_desc :: "message \<Rightarrow> nat" where
  "by_id_desc m = 3 - unat (msg_id m)"

text \<open>A server whose User collection has no record for any identity.\<close>

definition unknown_user_server :: server where
  "unknown_user_server = empty_server\<lparr>User_db := (\<lambda>uid. None)\<rparr>"

text \<open>
  Alice's socket right after the middleware, and the server when her client
  disconnects while the connection handler is still waiting for the user lookup.
\<close>

definition pending_alice :: socket where
  "pending_alice =
     \<lparr>sock_id = ''s1'', sock_userId = alice, sock_userEmail = ascii ''a@ova.care'',
      sock_userName = None, sock_stage = AwaitingUser, sock_connected = True\<rparr>"

definition disconnect_during_lookup :: server where
  "disconnect_during_lookup =
     recent_found by_id ''s1''
       (user_found ''s1''
          (deliver demo_lib ''s1'' Disconnect
             (handshake demo_lib ''s1'' (Some (ascii ''token-a'')) empty_server)))"

text \<open>
  A listening socket whose user lookup found no record, and the message that
  \<open>five_hundred\<close> becomes when Alice sends it.
\<close>

definition nameless_socket :: socket where
  "nameless_socket =
     \<lparr>sock_id = ''s1'', sock_userId = alice, sock_userEmail = ascii ''a@ova.care'',
      sock_userName = None, sock_stage = Listening, sock_connected = True\<rparr>"

definition message_500 :: message where
  "message_500 =
     \<lparr>msg_id = 1, content = five_hundred, userId = 0x64f000000000000000000a11,
      username = ascii ''Alice'', isAnonymous = True, timestamp = 1000, isDeleted = False\<rparr>"

section \<open>Properties of the anonymization boundary\<close>

lemma length_oidToString: "length (oidToString w) = 24"
  by (simp add: oidToString_def)

lemma oidToString_nonempty: "oidToString w \<noteq> []"
  using length_oidToString [of w] by auto

text \<open>
  Claim C1. Whatever the stored message and whoever the viewer (the author, anybody
  else, or nobody), the wire object carries the display name \<open>Anonymous\<close>, its
  properties are exactly \<open>_id\<close>, \<open>content\<close>, \<open>username\<close>, \<open>timestamp\<close>,
  \<open>isAnonymous\<close> and \<open>isOwnMessage\<close>, so it has no \<open>userId\<close> or \<open>authorId\<close> property,
  and the stored display name of the author has no influence on it at all.
\<close>

theorem anonymizeMessage_hides_author:
  "map_of (anonymizeMessage m v) ''username'' = Some (JStr (ascii ''Anonymous''))
   \<and> map fst (anonymizeMessage m v) =
       [''_id'', ''content'', ''username'', ''timestamp'', ''isAnonymous'', ''isOwnMessage'']
   \<and> map_of (anonymizeMessage m v) ''userId'' = None
   \<and> map_of (anonymizeMessage m v) ''authorId'' = None
   \<and> map_of (anonymizeMessage m v) ''authorDisplayName'' = None
   \<and> anonymizeMessage (m\<lparr>username := n\<rparr>) v = anonymizeMessage m v"
  by (cases v) (simp_all add: anonymizeMessage_def)

text \<open>
  Claim C3. The \<open>isOwnMessage\<close> property is a boolean, true exactly when the viewer
  is the identity string of the message's author; it is false for any other identity
  and for the null viewer.
\<close>

theorem isOwnMessage_iff_viewer_is_author:
  "map_of (anonymizeMessage m v) ''isOwnMessage'' =
     Some (JBool (v = Some (oidToString (userId m))))
   \<and> map_of (anonymizeMessage m None) ''isOwnMessage'' = Some (JBool False)
   \<and> map_of (anonymizeMessage m (Some (oidToString (userId m)))) ''isOwnMessage'' =
       Some (JBool True)"
  using oidToString_nonempty [of "userId m"]
  by (auto simp: anonymizeMessage_def split: option.splits)

section \<open>Facts about the example data\<close>

lemma length_ascii [simp]: "length (ascii s) = length s"
  by (simp add: ascii_def)

lemma ascii_eq_Nil [simp]: "ascii s = [] \<longleftrightarrow> s = []"
  by (simp add: ascii_def)

lemma alice_bob: "alice \<noteq> bob" "bob \<noteq> alice" "alice \<noteq> []" "bob \<noteq> []"
  by (simp_all add: alice_def bob_def ascii_def)

lemma two_connected_eq:
  "two_connected =
     \<lparr>User_db = demo_users, Message_db = [],
      connectedUsers =
        [(alice, \<lparr>socketId = ''s1'', name = ascii ''Alice'', email = ascii ''a@ova.care''\<rparr>),
         (bob, \<lparr>socketId = ''s2'', name = ascii ''Bob'', email = ascii ''b@ova.care''\<rparr>)],
      sockets = [alice_socket, bob_socket],
      emitted = [(ToSocket ''s1'', ''recent_messages'', JArr []),
                 (ToSocket ''s2'', ''recent_messages'', JArr [])]\<rparr>"
  by (simp add: two_connected_def connect_def authenticateSocket_def demo_lib_def
        open_socket_def user_found_def recent_found_def update_socket_def
        empty_server_def demo_users_def alice_bob recent_def
        Message_find_sorted_def alice_socket_def bob_socket_def ascii_def)

lemma two_connected_fields:
  "Message_db two_connected = []"
  "User_db two_connected = demo_users"
  "connectedUsers two_connected =
     [(alice, \<lparr>socketId = ''s1'', name = ascii ''Alice'', email = ascii ''a@ova.care''\<rparr>),
      (bob, \<lparr>socketId = ''s2'', name = ascii ''Bob'', email = ascii ''b@ova.care''\<rparr>)]"
  "emitted two_connected =
     [(ToSocket ''s1'', ''recent_messages'', JArr []),
      (ToSocket ''s2'', ''recent_messages'', JArr [])]"
  by (simp_all add: two_connected_eq)

lemma trim_hello: "trim (ascii ''hello'') = ascii ''hello''"
  by (simp add: trim_def ascii_def isWhiteSpace_def)

lemma send_hello:
  "send_message demo_lib 1 1000 alice_socket hello two_connected =
     two_connected\<lparr>Message_db := [hello_message],
        emitted := emitted two_connected @
          [(ToRoom ''s1'', ''new_message'', JObj (anonymizeMessage hello_message (Some alice))),
           (ToRoom ''s2'', ''new_message'', JObj (anonymizeMessage hello_message (Some bob))),
           (ToAll, ''new_message'', JObj (anonymizeMessage hello_message None))]\<rparr>"
  by (simp add: send_message_def hello_def trim_hello Message_save_def demo_lib_def
        alice_socket_def two_connected_eq fanout_def hello_message_def alice_bob)

lemma upt_24:
  "[0..<24] = [0, 1, 2, 3, 4, 5, 6, 7, 8, 9, 10, 11, 12, 13, 14, 15, 16, 17, 18, 19, 20, 21, 22, 23]"
  by (simp add: upt_rec)

lemma oidToString_alice: "oidToString 0x64f000000000000000000a11 = alice"
  by (simp add: oidToString_def upt_24 alice_def ascii_def hexDigit_def drop_bit_eq_div)

text \<open>In the example, Alice's copy is flagged as her own and Bob's copy is not.\<close>

lemma hello_flags:
  "map_of (anonymizeMessage hello_message (Some alice)) ''isOwnMessage'' = Some (JBool True)"
  "map_of (anonymizeMessage hello_message (Some bob)) ''isOwnMessage'' = Some (JBool False)"
  by (simp_all add: anonymizeMessage_def hello_message_def oidToString_alice alice_bob)

section \<open>Properties of the realtime send path\<close>

lemma emit_simps:
  "Message_db (emit e st) = Message_db st"
  "connectedUsers (emit e st) = connectedUsers st"
  "sockets (emit e st) = sockets st"
  "User_db (emit e st) = User_db st"
  "emitted (emit e st) = emitted st @ [e]"
  by (simp_all add: emit_def)

text \<open>
  A send whose content passes validation and whose document is saved appends the
  message and emits the per-entry deliveries followed by the delivery to all.
\<close>

lemma send_message_accepted:
  assumes "get_content data = Some c"
    and "validate c = Passed t"
    and "Message_save l oid now t (sock_userId socket) (sock_userName socket) (Message_db st)
           = Some m"
  shows "send_message l oid now socket data st =
           st\<lparr>Message_db := Message_db st @ [m],
              emitted := emitted st @ fanout m (connectedUsers st) @
                [(ToAll, ''new_message'', JObj (anonymizeMessage m None))]\<rparr>"
  using assms by (simp add: send_message_def)

lemma send_hello_old:
  "send_message_old demo_lib 1 1000 alice_socket hello two_connected =
     two_connected\<lparr>Message_db := [hello_message],
        emitted := emitted two_connected @
          [(ToRoom ''s1'', ''new_message'', JObj (anonymizeMessage hello_message (Some alice))),
           (ToRoom ''s2'', ''new_message'', JObj (anonymizeMessage hello_message (Some bob)))]\<rparr>"
  by (simp add: send_message_old_def hello_def trim_hello Message_save_def demo_lib_def
        alice_socket_def two_connected_eq fanout_def hello_message_def alice_bob)

text \<open>
  Claim C2, as stated, fails for one of the two handlers it is about. The handler
  of the older backend copy (OvaCare-main/backend/app.js) ends after the loop over
  \<open>connectedUsers\<close>: for Alice's \<open>hello\<close> with both users connected it persists
  the message, delivers it to both directory entries, and sends nothing to all
  sockets.
\<close>

theorem old_handler_no_broadcast_counterexample:
  "Message_db (send_message_old demo_lib 1 1000 alice_socket hello two_connected) =
     Message_db two_connected @ [hello_message]
   \<and> emitted (send_message_old demo_lib 1 1000 alice_socket hello two_connected) =
       [(ToSocket ''s1'', ''recent_messages'', JArr []),
        (ToSocket ''s2'', ''recent_messages'', JArr []),
        (ToRoom ''s1'', ''new_message'', JObj (anonymizeMessage hello_message (Some alice))),
        (ToRoom ''s2'', ''new_message'', JObj (anonymizeMessage hello_message (Some bob)))]
   \<and> filter (\<lambda>e. fst e = ToAll)
        (emitted (send_message_old demo_lib 1 1000 alice_socket hello two_connected)) = []"
  by (simp add: send_hello_old two_connected_fields)

text \<open>
  Claim C2, amended. Whenever a \<open>send_message\<close> handler has validated and persisted
  a message \<open>m\<close>, it emits, for every entry of \<open>connectedUsers\<close> in the directory's
  order, one \<open>new_message\<close> to that entry's socket id carrying \<open>anonymizeMessage m\<close>
  for that entry's identity. The handler of the current backend
  (src/unnamed/part_000) emits after these exactly one \<open>new_message\<close> to all sockets
  carrying \<open>anonymizeMessage m\<close> for the null viewer, and nothing else; the handler
  of the older copy emits nothing to all sockets, and nothing else.
\<close>

theorem send_message_fanout:
  "(Message_db (send_message l oid now socket data st) = Message_db st @ [m] \<longrightarrow>
      emitted (send_message l oid now socket data st) =
        emitted st
        @ map (\<lambda>(uid, info). (ToRoom (socketId info), ''new_message'',
                                JObj (anonymizeMessage m (Some uid)))) (connectedUsers st)
        @ [(ToAll, ''new_message'', JObj (anonymizeMessage m None))]
      \<and> filter (\<lambda>e. fst e = ToAll)
           (drop (length (emitted st)) (emitted (send_message l oid now socket data st))) =
          [(ToAll, ''new_message'', JObj (anonymizeMessage m None))])
   \<and> (Message_db (send_message_old l oid now socket data st) = Message_db st @ [m] \<longrightarrow>
        emitted (send_message_old l oid now socket data st) =
          emitted st
          @ map (\<lambda>(uid, info). (ToRoom (socketId info), ''new_message'',
                                  JObj (anonymizeMessage m (Some uid)))) (connectedUsers st)
        \<and> filter (\<lambda>e. fst e = ToAll)
             (drop (length (emitted st)) (emitted (send_message_old l oid now socket data st))) =
            [])"
proof -
  have new: "Message_db (send_message l oid now socket data st) = Message_db st @ [m] \<longrightarrow>
      emitted (send_message l oid now socket data st) =
        emitted st
        @ map (\<lambda>(uid, info). (ToRoom (socketId info), ''new_message'',
                                JObj (anonymizeMessage m (Some uid)))) (connectedUsers st)
        @ [(ToAll, ''new_message'', JObj (anonymizeMessage m None))]
      \<and> filter (\<lambda>e. fst e = ToAll)
           (drop (length (emitted st)) (emitted (send_message l oid now socket data st))) =
          [(ToAll, ''new_message'', JObj (anonymizeMessage m None))]"
    by (auto simp: send_message_def emit_simps fanout_def filter_empty_conv
             split: option.splits check.splits)
  have old: "Message_db (send_message_old l oid now socket data st) = Message_db st @ [m] \<longrightarrow>
        emitted (send_message_old l oid now socket data st) =
          emitted st
          @ map (\<lambda>(uid, info). (ToRoom (socketId info), ''new_message'',
                                  JObj (anonymizeMessage m (Some uid)))) (connectedUsers st)
        \<and> filter (\<lambda>e. fst e = ToAll)
             (drop (length (emitted st)) (emitted (send_message_old l oid now socket data st))) =
            []"
    by (auto simp: send_message_old_def emit_simps fanout_def filter_empty_conv
             split: option.splits check.splits)
  from new old show ?thesis by blast
qed

theorem send_message_fanout_witness:
  "Message_db (send_message demo_lib 1 1000 alice_socket hello two_connected) =
     Message_db two_connected @ [hello_message]
   \<and> emitted (send_message demo_lib 1 1000 alice_socket hello two_connected) =
       [(ToSocket ''s1'', ''recent_messages'', JArr []),
        (ToSocket ''s2'', ''recent_messages'', JArr []),
        (ToRoom ''s1'', ''new_message'', JObj (anonymizeMessage hello_message (Some alice))),
        (ToRoom ''s2'', ''new_message'', JObj (anonymizeMessage hello_message (Some bob))),
        (ToAll, ''new_message'', JObj (anonymizeMessage hello_message None))]
   \<and> Message_db (send_message_old demo_lib 1 1000 alice_socket hello two_connected) =
       Message_db two_connected @ [hello_message]
   \<and> emitted (send_message_old demo_lib 1 1000 alice_socket hello two_connected) =
       [(ToSocket ''s1'', ''recent_messages'', JArr []),
        (ToSocket ''s2'', ''recent_messages'', JArr []),
        (ToRoom ''s1'', ''new_message'', JObj (anonymizeMessage hello_message (Some alice))),
        (ToRoom ''s2'', ''new_message'', JObj (anonymizeMessage hello_message (Some bob)))]"
proof -
  have h: "Message_db (send_message demo_lib 1 1000 alice_socket hello two_connected) =
             Message_db two_connected @ [hello_message]"
    by (simp add: send_hello two_connected_fields)
  have h': "Message_db (send_message_old demo_lib 1 1000 alice_socket hello two_connected) =
             Message_db two_connected @ [hello_message]"
    by (simp add: send_hello_old two_connected_fields)
  note t = send_message_fanout [of demo_lib 1 1000 alice_socket hello two_connected hello_message]
  from t h have e: "emitted (send_message demo_lib 1 1000 alice_socket hello two_connected) =
       [(ToSocket ''s1'', ''recent_messages'', JArr []),
        (ToSocket ''s2'', ''recent_messages'', JArr []),
        (ToRoom ''s1'', ''new_message'', JObj (anonymizeMessage hello_message (Some alice))),
        (ToRoom ''s2'', ''new_message'', JObj (anonymizeMessage hello_message (Some bob))),
        (ToAll, ''new_message'', JObj (anonymizeMessage hello_message None))]"
    by (simp add: two_connected_fields)
  from t h' have e': "emitted (send_message_old demo_lib 1 1000 alice_socket hello two_connected) =
       [(ToSocket ''s1'', ''recent_messages'', JArr []),
        (ToSocket ''s2'', ''recent_messages'', JArr []),
        (ToRoom ''s1'', ''new_message'', JObj (anonymizeMessage hello_message (Some alice))),
        (ToRoom ''s2'', ''new_message'', JObj (anonymizeMessage hello_message (Some bob)))]"
    by (simp add: two_connected_fields)
  from h h' e e' show ?thesis by blast
qed

text \<open>
  The older copy of the handler makes the same per-entry deliveries and no
  delivery to all sockets.
\<close>

lemma send_message_old_fanout:
  assumes "Message_db (send_message_old l oid now socket data st) = Message_db st @ [m]"
  shows "emitted (send_message_old l oid now socket data st) =
           emitted st
           @ map (\<lambda>(uid, info). (ToRoom (socketId info), ''new_message'',
                                   JObj (anonymizeMessage m (Some uid)))) (connectedUsers st)"
  using assms
  by (auto simp: send_message_old_def emit_simps fanout_def split: option.splits check.splits)

section \<open>Validation of a send\<close>

lemma trim_Nil [simp]: "trim [] = []"
  by (simp add: trim_def)

lemma trim_padded: "trim padded = five_hundred"
  by (simp add: trim_def padded_def five_hundred_def isWhiteSpace_def)

lemma trim_five_hundred: "trim five_hundred = five_hundred"
  by (simp add: trim_def five_hundred_def isWhiteSpace_def dropWhile_replicate)

lemma trim_five_hundred_one: "trim five_hundred_one = five_hundred_one"
  by (simp add: trim_def five_hundred_one_def isWhiteSpace_def dropWhile_replicate)

lemma validate_JStr:
  "validate (JStr s) =
     (if trim s = [] then MessageEmpty else if 500 < length s then MessageTooLong
      else Passed (trim s))"
  by auto

lemma bearer_token_a: "bearer_token (Some (ascii ''Bearer token-a'')) = Some (ascii ''token-a'')"
  by (simp add: bearer_token_def ascii_def)

lemma send_message_rejects:
  assumes "\<not> (\<exists>c t. get_content data = Some c \<and> validate c = Passed t)"
  shows "\<exists>why. send_message l oid now socket data st =
           emit (ToSocket (sock_id socket), ''error'', error_message why) st"
  using assms by (auto simp: send_message_def split: option.splits check.splits)

lemma post_chat_send_rejects:
  assumes "\<not> (\<exists>c t. get_content body = Some c \<and> validate c = Passed t)"
  shows "snd (post_chat_send l oid now hdr body st) = st
         \<and> fst (fst (post_chat_send l oid now hdr body st)) \<in> {400, 401, 403, 500}"
  using assms
  by (auto simp: post_chat_send_def authenticateToken_def
           split: option.splits check.splits sum.splits)

section \<open>The client keeps one entry per message id\<close>

lemma am_id_reanonymize [simp]: "am_id (reanonymize m) = am_id m"
  by (simp add: reanonymize_def)

lemma map_am_id_on_new_message:
  "map am_id (on_new_message m prev) =
     (if am_id m \<in> set (map am_id prev) then map am_id prev else map am_id prev @ [am_id m])"
  by (auto simp: on_new_message_def list_ex_iff image_iff) metis

lemma count_one_of_distinct:
  "distinct xs \<Longrightarrow> x \<in> set xs \<Longrightarrow> length (filter (\<lambda>y. y = x) xs) = 1"
  by (induction xs) (auto simp: filter_empty_conv)

lemma length_filter_am_id:
  "length (filter (\<lambda>x. am_id x = i) xs) = length (filter (\<lambda>y. y = i) (map am_id xs))"
  by (induction xs) auto

lemma distinct_client_step:
  assumes "distinct (map am_id prev)"
    and "case ev of Recent_messages snapshot \<Rightarrow> distinct (map am_id snapshot)
         | New_message m \<Rightarrow> True"
  shows "distinct (map am_id (client_step prev ev))"
  using assms
  by (cases ev) (auto simp: map_am_id_on_new_message on_recent_messages_def comp_def)

lemma distinct_client_steps:
  assumes "distinct (map am_id prev)"
    and "\<forall>snapshot. Recent_messages snapshot \<in> set evs \<longrightarrow> distinct (map am_id snapshot)"
  shows "distinct (map am_id (foldl client_step prev evs))"
  using assms
proof (induction evs arbitrary: prev)
  case Nil
  then show ?case by simp
next
  case (Cons ev evs)
  have "distinct (map am_id (client_step prev ev))"
    using Cons.prems by (intro distinct_client_step) (auto split: client_event.splits)
  with Cons show ?case by simp
qed

text \<open>
  Claim C5. Starting from a list without repeated ids (the empty list in
  particular), and as long as every \<open>recent_messages\<close> snapshot is free of repeated
  ids, the client's list never holds two entries with the same id, whatever
  \<open>new_message\<close> events arrive and however often. A second \<open>new_message\<close> with the
  id of the first leaves the list as the first made it, with exactly one entry for
  that id.
\<close>

theorem client_one_entry_per_id:
  assumes "distinct (map am_id prev)"
    and "\<forall>snapshot. Recent_messages snapshot \<in> set evs \<longrightarrow> distinct (map am_id snapshot)"
    and "am_id m2 = am_id m1"
  shows "distinct (map am_id (foldl client_step prev evs))
         \<and> on_new_message m2 (on_new_message m1 prev) = on_new_message m1 prev
         \<and> length (filter (\<lambda>x. am_id x = am_id m1)
                     (on_new_message m2 (on_new_message m1 prev))) = 1"
proof -
  have same: "on_new_message m2 (on_new_message m1 prev) = on_new_message m1 prev"
    using assms(3) by (auto simp: on_new_message_def list_ex_iff Let_def)
  have d: "distinct (map am_id (on_new_message m1 prev))"
    using assms(1) by (simp add: map_am_id_on_new_message)
  have "am_id m1 \<in> set (map am_id (on_new_message m1 prev))"
    by (simp add: map_am_id_on_new_message)
  with d have "length (filter (\<lambda>x. am_id x = am_id m1) (on_new_message m1 prev)) = 1"
    unfolding length_filter_am_id by (rule count_one_of_distinct)
  with same distinct_client_steps [OF assms(1,2)] show ?thesis by simp
qed

theorem client_one_entry_per_id_witness:
  "distinct (map am_id ([] :: AnonymousMessage list))
   \<and> am_id fallback_copy = am_id targeted_copy
   \<and> client_run [Recent_messages [], New_message targeted_copy, New_message fallback_copy] =
       [targeted_copy]
   \<and> distinct (map am_id
        (client_run [Recent_messages [], New_message targeted_copy, New_message fallback_copy]))
   \<and> length (filter (\<lambda>x. am_id x = am_id targeted_copy)
        (on_new_message fallback_copy (on_new_message targeted_copy []))) = 1"
proof -
  have h1: "distinct (map am_id ([] :: AnonymousMessage list))"
    by simp
  have h2: "\<forall>snapshot. Recent_messages snapshot \<in>
              set [Recent_messages [], New_message targeted_copy, New_message fallback_copy]
              \<longrightarrow> distinct (map am_id snapshot)"
    by simp
  have h3: "am_id fallback_copy = am_id targeted_copy"
    by (simp add: fallback_copy_def)
  have run: "client_run [Recent_messages [], New_message targeted_copy, New_message fallback_copy] =
       [targeted_copy]"
    by (simp add: client_run_def on_recent_messages_def on_new_message_def reanonymize_def
          targeted_copy_def fallback_copy_def)
  from client_one_entry_per_id [OF h1 h2 h3] h1 h3 run show ?thesis
    unfolding client_run_def by blast
qed

section \<open>Ordering of the recent-messages query\<close>

lemma sorted_find:
  "sorted_wrt (\<lambda>a b. timestamp b \<le> timestamp a) (Message_find_sorted tie db)"
proof -
  have "sorted (map (\<lambda>m. - int (timestamp m)) (Message_find_sorted tie db))"
    unfolding Message_find_sorted_def by (rule sorted_sort_key)
  then show ?thesis by (simp add: sorted_map)
qed

lemma mset_find:
  "mset (Message_find_sorted tie db) = mset (filter (\<lambda>m. \<not> isDeleted m) db)"
  by (simp add: Message_find_sorted_def)

lemma set_find:
  "set (Message_find_sorted tie db) = {m \<in> set db. \<not> isDeleted m}"
  by (simp add: Message_find_sorted_def)

text \<open>
  When the stored messages have strictly increasing timestamps, the sort has one
  possible outcome whatever the engine does with equal keys: newest first.
\<close>

lemma find_increasing:
  assumes inc: "sorted_wrt (\<lambda>a b. timestamp a < timestamp b) db"
    and live: "\<forall>m \<in> set db. \<not> isDeleted m"
  shows "Message_find_sorted tie db = rev db"
proof -
  let ?r = "Message_find_sorted tie db"
  let ?k = "\<lambda>m. - int (timestamp m)"
  have f: "filter (\<lambda>m. \<not> isDeleted m) db = db"
    using live by (simp add: filter_id_conv)
  have m: "mset ?r = mset (rev db)"
    by (simp add: mset_find f)
  have s1: "sorted (map ?k ?r)"
    unfolding Message_find_sorted_def by (rule sorted_sort_key)
  have "sorted_wrt (\<lambda>a b. timestamp b < timestamp a) (rev db)"
    using inc by (simp add: sorted_wrt_rev)
  then have strict: "sorted_wrt (\<lambda>a b. ?k a < ?k b) (rev db)"
    by simp
  then have s2: "sorted (map ?k (rev db))"
    unfolding sorted_map by (rule sorted_wrt_mono_rel [rotated]) simp
  have "mset (map ?k ?r) = mset (map ?k (rev db))"
    using m by (metis mset_map)
  with s1 s2 have keys: "map ?k ?r = map ?k (rev db)"
    by (metis properties_for_sort)
  have "sorted_wrt (<) (map ?k (rev db))"
    using strict by (simp only: sorted_wrt_map)
  then have "distinct (map ?k (rev db))"
    by (simp only: strict_sorted_iff)
  then have "inj_on ?k (set (rev db))"
    by (simp add: distinct_map)
  moreover have "set ?r = set (rev db)"
    using m by (metis mset_eq_setD)
  ultimately have "inj_on ?k (set ?r \<union> set (rev db))"
    by simp
  with keys show ?thesis
    by (simp add: inj_on_map_eq_map)
qed

lemma recent_sorted:
  "sorted_wrt (\<lambda>a b. timestamp b \<le> timestamp a) (recent tie limit skip db)"
  unfolding recent_def by (intro sorted_wrt_take sorted_wrt_drop sorted_find)

lemma set_recent: "set (recent tie limit skip db) \<subseteq> {m \<in> set db. \<not> isDeleted m}"
proof -
  have "set (recent tie limit skip db) \<subseteq> set (Message_find_sorted tie db)"
    unfolding recent_def by (meson set_take_subset set_drop_subset subset_trans)
  then show ?thesis by (simp only: set_find)
qed

lemma recent_increasing:
  assumes "sorted_wrt (\<lambda>a b. timestamp a < timestamp b) db"
    and "\<forall>m \<in> set db. \<not> isDeleted m"
  shows "rev (recent tie (length db) 0 db) = db"
  by (simp add: recent_def find_increasing [OF assms])

lemma get_messages_authenticated:
  assumes "authenticateToken l hdr = Inr u"
  shows "get_messages l tie hdr ql qp st =
           (200, JObj
              [(''messages'', JArr (map (\<lambda>msg. JObj (anonymizeMessage msg (Some (d_userId u))))
                  (rev (recent tie (or_default ql 50) ((or_default qp 1 - 1) * or_default ql 50)
                          (Message_db st))))),
               (''hasMore'', JBool
                  (length (recent tie (or_default ql 50) ((or_default qp 1 - 1) * or_default ql 50)
                            (Message_db st)) = or_default ql 50))])"
  using assms by (simp add: get_messages_def Let_def rev_map)

text \<open>
  Claim C6, as stated, fails: the query sorts on the timestamp only and names no
  second key, so messages with equal timestamps come in whatever order the engine
  produces. For three messages inserted in the order A, B, C within one
  millisecond, an engine that yields equal keys by ascending id gives, after
  reversing, C, B, A; one that yields them by descending id gives A, B, C.
\<close>

theorem equal_timestamps_counterexample:
  "timestamp msg_A = timestamp msg_B \<and> timestamp msg_B = timestamp msg_C
   \<and> rev (recent by_id 3 0 [msg_A, msg_B, msg_C]) = [msg_C, msg_B, msg_A]
   \<and> rev (recent by_id_desc 3 0 [msg_A, msg_B, msg_C]) = [msg_A, msg_B, msg_C]"
  by (simp add: recent_def Message_find_sorted_def msg_A_def msg_B_def msg_C_def msg_at_def
        by_id_def by_id_desc_def)

text \<open>
  Claim C6, amended. The recent-messages query returns messages that are not
  deleted, most recent first by timestamp; nothing is promised about the order of
  messages with equal timestamps. When the stored messages were inserted with
  strictly increasing timestamps and none is deleted, querying as many as there are
  from offset 0 and reversing yields them in insertion order. The REST handler
  returns the reversed query result, anonymized for the requesting identity.
\<close>

theorem recent_ordered_by_timestamp:
  "sorted_wrt (\<lambda>a b. timestamp b \<le> timestamp a) (recent tie limit skip db)
   \<and> set (recent tie limit skip db) \<subseteq> {m \<in> set db. \<not> isDeleted m}
   \<and> (sorted_wrt (\<lambda>a b. timestamp a < timestamp b) db \<and> (\<forall>m \<in> set db. \<not> isDeleted m)
        \<longrightarrow> rev (recent tie (length db) 0 db) = db)
   \<and> (authenticateToken l hdr = Inr u \<longrightarrow>
        get_messages l tie hdr ql qp st =
          (200, JObj
             [(''messages'', JArr (map (\<lambda>msg. JObj (anonymizeMessage msg (Some (d_userId u))))
                 (rev (recent tie (or_default ql 50) ((or_default qp 1 - 1) * or_default ql 50)
                         (Message_db st))))),
              (''hasMore'', JBool
                 (length (recent tie (or_default ql 50) ((or_default qp 1 - 1) * or_default ql 50)
                           (Message_db st)) = or_default ql 50))]))"
  using recent_sorted [of tie limit skip db] set_recent [of tie limit skip db]
    recent_increasing [of db tie] get_messages_authenticated [of l hdr u tie ql qp st]
  by blast

theorem recent_ordered_by_timestamp_witness:
  "sorted_wrt (\<lambda>a b. timestamp a < timestamp b) [msg_A, later_B, later_C]
   \<and> \<not> isDeleted msg_A \<and> \<not> isDeleted later_B \<and> \<not> isDeleted later_C
   \<and> rev (recent by_id 3 0 [msg_A, later_B, later_C]) = [msg_A, later_B, later_C]
   \<and> authenticateToken demo_lib (Some (ascii ''Bearer token-a'')) =
       Inr \<lparr>d_userId = alice, d_email = ascii ''a@ova.care''\<rparr>
   \<and> get_messages demo_lib by_id (Some (ascii ''Bearer token-a'')) (Some 3) None
        (empty_server\<lparr>Message_db := [msg_A, later_B, later_C]\<rparr>) =
       (200, JObj
          [(''messages'', JArr [JObj (anonymizeMessage msg_A (Some alice)),
                                JObj (anonymizeMessage later_B (Some alice)),
                                JObj (anonymizeMessage later_C (Some alice))]),
           (''hasMore'', JBool True)])"
proof -
  have h1: "sorted_wrt (\<lambda>a b. timestamp a < timestamp b) [msg_A, later_B, later_C]
      \<and> (\<forall>m \<in> set [msg_A, later_B, later_C]. \<not> isDeleted m)"
    by (simp add: msg_A_def later_B_def later_C_def msg_at_def)
  have h2: "authenticateToken demo_lib (Some (ascii ''Bearer token-a'')) =
       Inr \<lparr>d_userId = alice, d_email = ascii ''a@ova.care''\<rparr>"
    by (simp add: authenticateToken_def bearer_token_a demo_lib_def)
  note t = recent_ordered_by_timestamp [of by_id 3 0 "[msg_A, later_B, later_C]" demo_lib
      "Some (ascii ''Bearer token-a'')" "\<lparr>d_userId = alice, d_email = ascii ''a@ova.care''\<rparr>"
      "Some 3" None "empty_server\<lparr>Message_db := [msg_A, later_B, later_C]\<rparr>"]
  have len: "length [msg_A, later_B, later_C] = 3"
    by simp
  from t h1 have "rev (recent by_id (length [msg_A, later_B, later_C]) 0
      [msg_A, later_B, later_C]) = [msg_A, later_B, later_C]"
    by blast
  then have r: "rev (recent by_id 3 0 [msg_A, later_B, later_C]) = [msg_A, later_B, later_C]"
    unfolding len .
  then have r': "recent by_id 3 0 [msg_A, later_B, later_C] = [later_C, later_B, msg_A]"
    by (simp add: rev_swap)
  from t h2 have "get_messages demo_lib by_id (Some (ascii ''Bearer token-a'')) (Some 3) None
        (empty_server\<lparr>Message_db := [msg_A, later_B, later_C]\<rparr>) =
       (200, JObj
          [(''messages'', JArr [JObj (anonymizeMessage msg_A (Some alice)),
                                JObj (anonymizeMessage later_B (Some alice)),
                                JObj (anonymizeMessage later_C (Some alice))]),
           (''hasMore'', JBool True)])"
    by (simp add: or_default_def r')
  with h1 h2 r show ?thesis by simp
qed

section \<open>The users-online endpoint\<close>

lemma authenticateToken_a:
  "authenticateToken demo_lib (Some (ascii ''Bearer token-a'')) =
     Inr \<lparr>d_userId = alice, d_email = ascii ''a@ova.care''\<rparr>"
  by (simp add: authenticateToken_def bearer_token_a demo_lib_def)

text \<open>
  Claim C9. The response of the users-online endpoint does not depend on the server
  state at all (connections, directory, messages): any two states give the same
  response to the same request, and to an authenticated request that response is
  \<open>{count: 0, users: []}\<close>.
\<close>

theorem users_online_constant:
  "users_online l hdr st = users_online l hdr st'
   \<and> (authenticateToken l hdr = Inr u \<longrightarrow>
        users_online l hdr st = (200, JObj [(''count'', JNum 0), (''users'', JArr [])]))"
  by (simp add: users_online_def split: sum.splits)

theorem users_online_constant_witness:
  "authenticateToken demo_lib (Some (ascii ''Bearer token-a'')) =
     Inr \<lparr>d_userId = alice, d_email = ascii ''a@ova.care''\<rparr>
   \<and> connectedUsers empty_server = [] \<and> length (connectedUsers two_connected) = 2
   \<and> users_online demo_lib (Some (ascii ''Bearer token-a'')) empty_server =
       (200, JObj [(''count'', JNum 0), (''users'', JArr [])])
   \<and> users_online demo_lib (Some (ascii ''Bearer token-a'')) two_connected =
       (200, JObj [(''count'', JNum 0), (''users'', JArr [])])"
proof -
  note t = users_online_constant [of demo_lib "Some (ascii ''Bearer token-a'')" empty_server
      two_connected "\<lparr>d_userId = alice, d_email = ascii ''a@ova.care''\<rparr>"]
  have c: "connectedUsers empty_server = [] \<and> length (connectedUsers two_connected) = 2"
    by (simp add: two_connected_fields empty_server_def)
  from t authenticateToken_a
  have e: "users_online demo_lib (Some (ascii ''Bearer token-a'')) empty_server =
       (200, JObj [(''count'', JNum 0), (''users'', JArr [])])"
    by blast
  with t have "users_online demo_lib (Some (ascii ''Bearer token-a'')) two_connected =
       (200, JObj [(''count'', JNum 0), (''users'', JArr [])])"
    by metis
  with e c authenticateToken_a show ?thesis by blast
qed

section \<open>The REST send path\<close>

text \<open>
  Once the request is authenticated, the content has passed validation, the sender's
  user record is found and the document is saved, the handler has appended the
  message and delivered it to every directory entry; reading \<open>messageData\<close> then
  throws and the \<open>catch\<close> answers 500.
\<close>

lemma post_chat_send_persisted:
  assumes "authenticateToken l hdr = Inr u"
    and "get_content body = Some c"
    and "validate c = Passed t"
    and "User_db st (d_userId u) = Some usr"
    and "Message_save l oid now t (d_userId u) (Some (user_name usr)) (Message_db st) = Some m"
  shows "post_chat_send l oid now hdr body st =
           ((500, error_body ''Failed to send message''),
            st\<lparr>Message_db := Message_db st @ [m],
               emitted := emitted st @
                 map (\<lambda>(uid, info). (ToRoom (socketId info), ''new_message'',
                        JObj (anonymizeMessage m (Some uid)))) (connectedUsers st)\<rparr>)"
  using assms by (simp add: post_chat_send_def send_scope_def fanout_def Let_def)

text \<open>
  Claim C7 describes the response \<open>{success: true, message: ...}\<close> that the handler
  is written to give. The code does not give it: for Alice's valid request
  \<open>hello\<close> with both users connected, the message is stored and delivered to both
  directory entries (with no delivery to all sockets), and the response is status 500
  with \<open>{error: 'Failed to send message'}\<close>.
\<close>

theorem post_chat_send_hello:
  "post_chat_send demo_lib 1 1000 (Some (ascii ''Bearer token-a'')) hello two_connected =
     ((500, error_body ''Failed to send message''),
      two_connected\<lparr>Message_db := [hello_message],
        emitted := emitted two_connected @
          [(ToRoom ''s1'', ''new_message'', JObj (anonymizeMessage hello_message (Some alice))),
           (ToRoom ''s2'', ''new_message'', JObj (anonymizeMessage hello_message (Some bob)))]\<rparr>)"
proof -
  have "post_chat_send demo_lib 1 1000 (Some (ascii ''Bearer token-a'')) hello two_connected =
     ((500, error_body ''Failed to send message''),
      two_connected\<lparr>Message_db := Message_db two_connected @ [hello_message],
        emitted := emitted two_connected @
          map (\<lambda>(uid, info). (ToRoom (socketId info), ''new_message'',
                 JObj (anonymizeMessage hello_message (Some uid)))) (connectedUsers two_connected)\<rparr>)"
    by (rule post_chat_send_persisted [OF authenticateToken_a,
          where c = "JStr (ascii ''hello'')" and t = "ascii ''hello''"
            and usr = "\<lparr>user_name = ascii ''Alice'', user_email = ascii ''a@ova.care''\<rparr>"])
       (simp_all add: hello_def trim_hello two_connected_fields demo_users_def Message_save_def
          demo_lib_def hello_message_def)
  then show ?thesis by (simp add: two_connected_fields)
qed

text \<open>
  Claim C10, as stated, fails for an authenticated request with valid content whose
  sender has no user record: \<open>user.name\<close> throws before the message is created, so
  nothing is persisted and nothing is delivered.
\<close>

theorem post_without_user_counterexample:
  "authenticateToken demo_lib (Some (ascii ''Bearer token-a'')) =
     Inr \<lparr>d_userId = alice, d_email = ascii ''a@ova.care''\<rparr>
   \<and> validate (JStr (ascii ''hello'')) = Passed (ascii ''hello'')
   \<and> post_chat_send demo_lib 1 1000 (Some (ascii ''Bearer token-a'')) hello unknown_user_server =
       ((500, error_body ''Failed to send message''), unknown_user_server)"
  by (simp add: authenticateToken_a post_chat_send_def hello_def trim_hello
        unknown_user_server_def empty_server_def)

text \<open>
  Claim C10, amended. For an authenticated request whose content passes validation,
  whose sender's user record is found and whose document the collection accepts,
  the state the handler leaves behind has the message appended and one delivery per
  directory entry emitted, although the response is an error: an error response
  does not mean that nothing happened.
\<close>

theorem post_chat_send_side_effects_before_response:
  assumes "authenticateToken l hdr = Inr u"
    and "get_content body = Some c"
    and "validate c = Passed t"
    and "User_db st (d_userId u) = Some usr"
    and "Message_save l oid now t (d_userId u) (Some (user_name usr)) (Message_db st) = Some m"
  shows "Message_db (snd (post_chat_send l oid now hdr body st)) = Message_db st @ [m]
         \<and> emitted (snd (post_chat_send l oid now hdr body st)) =
             emitted st @
               map (\<lambda>(uid, info). (ToRoom (socketId info), ''new_message'',
                      JObj (anonymizeMessage m (Some uid)))) (connectedUsers st)
         \<and> fst (post_chat_send l oid now hdr body st) =
             (500, error_body ''Failed to send message'')
         \<and> snd (post_chat_send l oid now hdr body st) \<noteq> st"
proof -
  note p = post_chat_send_persisted [OF assms]
  have db: "Message_db (snd (post_chat_send l oid now hdr body st)) = Message_db st @ [m]"
    by (simp add: p)
  have "snd (post_chat_send l oid now hdr body st) \<noteq> st"
  proof
    assume "snd (post_chat_send l oid now hdr body st) = st"
    with db show False by simp
  qed
  with db show ?thesis by (simp add: p)
qed

theorem post_chat_send_side_effects_before_response_witness:
  "authenticateToken demo_lib (Some (ascii ''Bearer token-a'')) =
     Inr \<lparr>d_userId = alice, d_email = ascii ''a@ova.care''\<rparr>
   \<and> get_content hello = Some (JStr (ascii ''hello''))
   \<and> validate (JStr (ascii ''hello'')) = Passed (ascii ''hello'')
   \<and> User_db two_connected alice =
       Some \<lparr>user_name = ascii ''Alice'', user_email = ascii ''a@ova.care''\<rparr>
   \<and> Message_save demo_lib 1 1000 (ascii ''hello'') alice (Some (ascii ''Alice''))
        (Message_db two_connected) = Some hello_message
   \<and> Message_db (snd (post_chat_send demo_lib 1 1000 (Some (ascii ''Bearer token-a'')) hello
        two_connected)) = [hello_message]
   \<and> fst (post_chat_send demo_lib 1 1000 (Some (ascii ''Bearer token-a'')) hello two_connected) =
       (500, error_body ''Failed to send message'')"
proof -
  have h2: "get_content hello = Some (JStr (ascii ''hello''))"
    by (simp add: hello_def)
  have h3: "validate (JStr (ascii ''hello'')) = Passed (ascii ''hello'')"
    by (simp add: trim_hello)
  have h4: "User_db two_connected
      (d_userId \<lparr>d_userId = alice, d_email = ascii ''a@ova.care''\<rparr>) =
       Some \<lparr>user_name = ascii ''Alice'', user_email = ascii ''a@ova.care''\<rparr>"
    by (simp add: two_connected_fields demo_users_def)
  have h5: "Message_save demo_lib 1 1000 (ascii ''hello'')
      (d_userId \<lparr>d_userId = alice, d_email = ascii ''a@ova.care''\<rparr>)
      (Some (user_name \<lparr>user_name = ascii ''Alice'', user_email = ascii ''a@ova.care''\<rparr>))
      (Message_db two_connected) = Some hello_message"
    by (simp add: Message_save_def demo_lib_def two_connected_fields hello_message_def)
  from post_chat_send_side_effects_before_response [OF authenticateToken_a h2 h3 h4 h5]
    authenticateToken_a h2 h3 h4 h5
  show ?thesis by (simp add: two_connected_fields)
qed

section \<open>Presence directory lifecycle\<close>

lemma map_of_Map_set: "map_of (Map_set k v kvs) k = Some v"
  by (induction kvs) auto

lemma map_of_Map_delete: "map_of (Map_delete k kvs) k = None"
  by (induction kvs) (auto simp: Map_delete_def)

lemma deliver_unregistered:
  assumes "sid \<notin> sock_id ` set (sockets st)"
  shows "deliver l sid ev st = st"
proof -
  have "find (\<lambda>s. sock_id s = sid) (sockets st) = None"
    using assms by (auto simp: find_None_iff)
  then show ?thesis by (simp add: deliver_def)
qed

lemma deliver_all_unregistered:
  "sid \<notin> sock_id ` set (sockets st) \<Longrightarrow> deliver_all l sid evs st = st"
  by (induction evs) (simp_all add: deliver_unregistered)

lemma find_append_fresh:
  assumes "sid \<notin> sock_id ` set ss" and "sock_id x = sid" and "Q x"
  shows "find (\<lambda>s. sock_id s = sid \<and> Q s) (ss @ [x]) = Some x"
  using assms by (induction ss) auto

lemma find_append_fresh_none:
  assumes "sid \<notin> sock_id ` set ss" and "\<not> Q x"
  shows "find (\<lambda>s. sock_id s = sid \<and> Q s) (ss @ [x]) = None"
  using assms by (induction ss) auto

lemma update_socket_fresh:
  assumes "sid \<notin> sock_id ` set ss" and "sock_id x = sid"
  shows "update_socket sid f (ss @ [x]) = ss @ [f x]"
  using assms by (induction ss) (auto simp: update_socket_def)

lemma authenticateSocket_a:
  "authenticateSocket demo_lib (Some (ascii ''token-a'')) =
     Some \<lparr>d_userId = alice, d_email = ascii ''a@ova.care''\<rparr>"
  by (simp add: authenticateSocket_def demo_lib_def)

text \<open>A handshake whose connection handler runs undisturbed, user record present.\<close>

lemma connect_known:
  assumes "authenticateSocket l token = Some d"
    and "User_db st (d_userId d) = Some usr"
    and "sid \<notin> sock_id ` set (sockets st)"
  shows "connect l tie sid token st =
           st\<lparr>sockets := sockets st @
                 [\<lparr>sock_id = sid, sock_userId = d_userId d, sock_userEmail = d_email d,
                   sock_userName = Some (user_name usr), sock_stage = Listening,
                   sock_connected = True\<rparr>],
              connectedUsers :=
                Map_set (d_userId d)
                  \<lparr>socketId = sid, name = user_name usr, email = user_email usr\<rparr>
                  (connectedUsers st),
              emitted := emitted st @
                [(ToSocket sid, ''recent_messages'',
                  JArr (rev (map (\<lambda>msg. JObj (anonymizeMessage msg (Some (d_userId d))))
                               (recent tie 50 0 (Message_db st)))))]\<rparr>"
  using assms
  by (simp add: connect_def open_socket_def user_found_def recent_found_def Let_def
        find_append_fresh update_socket_fresh)

lemma connect_unknown:
  assumes "authenticateSocket l token = Some d"
    and "User_db st (d_userId d) = None"
    and "sid \<notin> sock_id ` set (sockets st)"
  shows "connect l tie sid token st =
           st\<lparr>sockets := sockets st @
                 [\<lparr>sock_id = sid, sock_userId = d_userId d, sock_userEmail = d_email d,
                   sock_userName = None, sock_stage = Listening, sock_connected = True\<rparr>]\<rparr>"
proof -
  have nf: "find (\<lambda>s. sock_id s = sid \<and> sock_stage s = AwaitingRecent)
      (sockets st @ [\<lparr>sock_id = sid, sock_userId = d_userId d, sock_userEmail = d_email d,
                   sock_userName = None, sock_stage = Listening, sock_connected = True\<rparr>]) = None"
    using assms(3) by (intro find_append_fresh_none) simp_all
  show ?thesis
    using assms
    by (simp add: connect_def open_socket_def user_found_def recent_found_def Let_def
        find_append_fresh update_socket_fresh nf)
qed


lemma disconnect_during_lookup_eq:
  "disconnect_during_lookup =
     \<lparr>User_db = demo_users, Message_db = [],
      connectedUsers =
        [(alice, \<lparr>socketId = ''s1'', name = ascii ''Alice'', email = ascii ''a@ova.care''\<rparr>)],
      sockets = [alice_socket\<lparr>sock_connected := False\<rparr>],
      emitted = [(ToSocket ''s1'', ''recent_messages'', JArr [])]\<rparr>"
  by (simp add: disconnect_during_lookup_def handshake_def authenticateSocket_a open_socket_def
        deliver_def user_found_def recent_found_def update_socket_def empty_server_def
        demo_users_def alice_socket_def recent_def Message_find_sorted_def)

text \<open>
  A verified credential for an identity without a user record: the connection
  handler ends with a listening socket that has no \<open>userName\<close>, and no entry.
\<close>

lemma connect_nameless:
  "connect demo_lib by_id ''s1'' (Some (ascii ''token-a'')) unknown_user_server =
     unknown_user_server\<lparr>sockets := [nameless_socket]\<rparr>"
  by (simp add: connect_def authenticateSocket_a open_socket_def user_found_def
        recent_found_def update_socket_def unknown_user_server_def empty_server_def
        nameless_socket_def)

text \<open>
  Claim C8, as stated, fails in its first two parts. A verified credential is not
  enough for a directory entry: when the User collection has no record for the
  verified identity, the connection handler's \<open>catch\<close> is taken before
  \<open>connectedUsers.set\<close> and the socket listens without an entry. And a disconnect
  event does not always clear the entry: when Alice's client disconnects while the
  connection handler is waiting for the user lookup, no listener is registered yet,
  the handler sets the entry afterwards, and the entry stays.
\<close>

theorem presence_counterexample:
  "authenticateSocket demo_lib (Some (ascii ''token-a'')) =
     Some \<lparr>d_userId = alice, d_email = ascii ''a@ova.care''\<rparr>
   \<and> connect demo_lib by_id ''s1'' (Some (ascii ''token-a'')) unknown_user_server =
       unknown_user_server\<lparr>sockets :=
         [\<lparr>sock_id = ''s1'', sock_userId = alice, sock_userEmail = ascii ''a@ova.care'',
           sock_userName = None, sock_stage = Listening, sock_connected = True\<rparr>]\<rparr>
   \<and> map_of (connectedUsers
         (connect demo_lib by_id ''s1'' (Some (ascii ''token-a'')) unknown_user_server)) alice = None
   \<and> map_of (connectedUsers
         (recent_found by_id ''s1''
            (user_found ''s1''
               (deliver demo_lib ''s1'' Disconnect
                  (handshake demo_lib ''s1'' (Some (ascii ''token-a'')) empty_server))))) alice =
       Some \<lparr>socketId = ''s1'', name = ascii ''Alice'', email = ascii ''a@ova.care''\<rparr>
   \<and> deliver demo_lib ''s1'' Disconnect disconnect_during_lookup = disconnect_during_lookup"
proof -
  have a: "connect demo_lib by_id ''s1'' (Some (ascii ''token-a'')) unknown_user_server =
       unknown_user_server\<lparr>sockets :=
         [\<lparr>sock_id = ''s1'', sock_userId = alice, sock_userEmail = ascii ''a@ova.care'',
           sock_userName = None, sock_stage = Listening, sock_connected = True\<rparr>]\<rparr>"
    by (simp add: connect_nameless nameless_socket_def)
  have a2: "map_of (connectedUsers
         (connect demo_lib by_id ''s1'' (Some (ascii ''token-a'')) unknown_user_server)) alice = None"
    unfolding a by (simp add: unknown_user_server_def empty_server_def)
  have b: "map_of (connectedUsers
         (recent_found by_id ''s1''
            (user_found ''s1''
               (deliver demo_lib ''s1'' Disconnect
                  (handshake demo_lib ''s1'' (Some (ascii ''token-a'')) empty_server))))) alice =
       Some \<lparr>socketId = ''s1'', name = ascii ''Alice'', email = ascii ''a@ova.care''\<rparr>"
    unfolding disconnect_during_lookup_def [symmetric]
    by (simp add: disconnect_during_lookup_eq)
  have c: "deliver demo_lib ''s1'' Disconnect disconnect_during_lookup = disconnect_during_lookup"
    by (simp add: disconnect_during_lookup_eq deliver_def alice_socket_def)
  from authenticateSocket_a a a2 b c show ?thesis
    by blast
qed

text \<open>
  Claim C8, amended. After a handshake whose credential verifies, the identity has
  an entry in \<open>connectedUsers\<close>, pointing at the new socket, as soon as the
  connection handler's user lookup has found the identity's record, and so at the
  end of a connection handler that ran undisturbed. After the \<open>disconnect\<close> event
  of a socket whose listeners are registered, that socket's identity has no entry;
  in particular after a connection handler that ran to its end. A connection whose
  credential fails verification leaves the server state as it was, and no event
  sent under its socket id changes the state: nothing is processed, nothing is
  persisted, no entry appears.
\<close>

theorem presence_lifecycle:
  "(find (\<lambda>s. sock_id s = sid \<and> sock_stage s = AwaitingUser) (sockets st) = Some sock
      \<and> User_db st (sock_userId sock) = Some usr \<longrightarrow>
      map_of (connectedUsers (user_found sid st)) (sock_userId sock) =
        Some \<lparr>socketId = sid, name = user_name usr, email = user_email usr\<rparr>)
   \<and> (authenticateSocket l token = Some d \<and> User_db st (d_userId d) = Some usr
        \<and> sid \<notin> sock_id ` set (sockets st) \<longrightarrow>
        map_of (connectedUsers (connect l tie sid token st)) (d_userId d) =
          Some \<lparr>socketId = sid, name = user_name usr, email = user_email usr\<rparr>)
   \<and> (find (\<lambda>s. sock_id s = sid) (sockets st) = Some sock
        \<and> sock_connected sock \<and> sock_stage sock = Listening \<longrightarrow>
        map_of (connectedUsers (deliver l sid Disconnect st)) (sock_userId sock) = None)
   \<and> (authenticateSocket l token = Some d \<and> sid \<notin> sock_id ` set (sockets st) \<longrightarrow>
        map_of (connectedUsers (deliver l sid Disconnect (connect l tie sid token st)))
          (d_userId d) = None)
   \<and> (authenticateSocket l token = None \<and> sid \<notin> sock_id ` set (sockets st) \<longrightarrow>
        handshake l sid token st = st
        \<and> connect l tie sid token st = st
        \<and> deliver_all l sid evs (connect l tie sid token st) = st)"
proof -
  have p1: "find (\<lambda>s. sock_id s = sid \<and> sock_stage s = AwaitingUser) (sockets st) = Some sock
      \<and> User_db st (sock_userId sock) = Some usr \<longrightarrow>
      map_of (connectedUsers (user_found sid st)) (sock_userId sock) =
        Some \<lparr>socketId = sid, name = user_name usr, email = user_email usr\<rparr>"
    by (simp add: user_found_def map_of_Map_set)
  have p2: "authenticateSocket l token = Some d \<and> User_db st (d_userId d) = Some usr
        \<and> sid \<notin> sock_id ` set (sockets st) \<longrightarrow>
        map_of (connectedUsers (connect l tie sid token st)) (d_userId d) =
          Some \<lparr>socketId = sid, name = user_name usr, email = user_email usr\<rparr>"
    by (simp add: connect_known map_of_Map_set)
  have p3: "find (\<lambda>s. sock_id s = sid) (sockets st) = Some sock
        \<and> sock_connected sock \<and> sock_stage sock = Listening \<longrightarrow>
        map_of (connectedUsers (deliver l sid Disconnect st)) (sock_userId sock) = None"
    by (simp add: deliver_def on_disconnect_def map_of_Map_delete)
  have p4: "authenticateSocket l token = Some d \<and> sid \<notin> sock_id ` set (sockets st) \<longrightarrow>
        map_of (connectedUsers (deliver l sid Disconnect (connect l tie sid token st)))
          (d_userId d) = None"
  proof
    assume h: "authenticateSocket l token = Some d \<and> sid \<notin> sock_id ` set (sockets st)"
    then have f: "\<And>x. sock_id x = sid \<Longrightarrow>
        find (\<lambda>s. sock_id s = sid) (sockets st @ [x]) = Some x"
      using find_append_fresh [of sid "sockets st" _ "\<lambda>s. True"] by simp
    show "map_of (connectedUsers (deliver l sid Disconnect (connect l tie sid token st)))
          (d_userId d) = None"
    proof (cases "User_db st (d_userId d)")
      case None
      with h show ?thesis
        by (simp add: connect_unknown deliver_def f on_disconnect_def map_of_Map_delete)
    next
      case (Some usr)
      with h show ?thesis
        by (simp add: connect_known deliver_def f on_disconnect_def map_of_Map_delete)
    qed
  qed
  have p5: "authenticateSocket l token = None \<and> sid \<notin> sock_id ` set (sockets st) \<longrightarrow>
        handshake l sid token st = st
        \<and> connect l tie sid token st = st
        \<and> deliver_all l sid evs (connect l tie sid token st) = st"
    by (simp add: handshake_def connect_def deliver_all_unregistered)
  from p1 p2 p3 p4 p5 show ?thesis by blast
qed


lemma handshake_a:
  "handshake demo_lib ''s1'' (Some (ascii ''token-a'')) empty_server =
     empty_server\<lparr>sockets := [pending_alice]\<rparr>"
  by (simp add: handshake_def authenticateSocket_a open_socket_def empty_server_def
        pending_alice_def)

theorem presence_lifecycle_witness:
  "find (\<lambda>s. sock_id s = ''s1'' \<and> sock_stage s = AwaitingUser)
     (sockets (handshake demo_lib ''s1'' (Some (ascii ''token-a'')) empty_server)) =
     Some pending_alice
   \<and> User_db (handshake demo_lib ''s1'' (Some (ascii ''token-a'')) empty_server) alice =
       Some \<lparr>user_name = ascii ''Alice'', user_email = ascii ''a@ova.care''\<rparr>
   \<and> map_of (connectedUsers
         (user_found ''s1'' (handshake demo_lib ''s1'' (Some (ascii ''token-a'')) empty_server)))
        alice = Some \<lparr>socketId = ''s1'', name = ascii ''Alice'', email = ascii ''a@ova.care''\<rparr>
   \<and> authenticateSocket demo_lib (Some (ascii ''token-a'')) =
       Some \<lparr>d_userId = alice, d_email = ascii ''a@ova.care''\<rparr>
   \<and> ''s1'' \<notin> sock_id ` set (sockets empty_server)
   \<and> map_of (connectedUsers (connect demo_lib by_id ''s1'' (Some (ascii ''token-a'')) empty_server))
        alice = Some \<lparr>socketId = ''s1'', name = ascii ''Alice'', email = ascii ''a@ova.care''\<rparr>
   \<and> find (\<lambda>s. sock_id s = ''s1'') (sockets two_connected) = Some alice_socket
   \<and> sock_connected alice_socket \<and> sock_stage alice_socket = Listening
   \<and> map_of (connectedUsers (deliver demo_lib ''s1'' Disconnect two_connected)) alice = None
   \<and> map_of (connectedUsers (deliver demo_lib ''s1'' Disconnect
         (connect demo_lib by_id ''s1'' (Some (ascii ''token-a'')) empty_server))) alice = None
   \<and> authenticateSocket demo_lib (Some (ascii ''forged'')) = None
   \<and> ''s3'' \<notin> sock_id ` set (sockets two_connected)
   \<and> deliver_all demo_lib ''s3'' [Send_message 1 1000 hello, Ping, Disconnect]
         (connect demo_lib by_id ''s3'' (Some (ascii ''forged'')) two_connected) = two_connected"
proof -
  let ?d = "\<lparr>d_userId = alice, d_email = ascii ''a@ova.care''\<rparr>"
  let ?u = "\<lparr>user_name = ascii ''Alice'', user_email = ascii ''a@ova.care''\<rparr>"
  let ?hs = "handshake demo_lib ''s1'' (Some (ascii ''token-a'')) empty_server"
  have h1: "find (\<lambda>s. sock_id s = ''s1'' \<and> sock_stage s = AwaitingUser) (sockets ?hs) =
      Some pending_alice \<and> User_db ?hs (sock_userId pending_alice) = Some ?u"
    by (simp add: handshake_a) (simp add: pending_alice_def empty_server_def demo_users_def)
  have h2: "authenticateSocket demo_lib (Some (ascii ''token-a'')) = Some ?d
      \<and> User_db empty_server (d_userId ?d) = Some ?u
      \<and> ''s1'' \<notin> sock_id ` set (sockets empty_server)"
    by (simp add: authenticateSocket_a empty_server_def demo_users_def)
  have h3: "find (\<lambda>s. sock_id s = ''s1'') (sockets two_connected) = Some alice_socket
      \<and> sock_connected alice_socket \<and> sock_stage alice_socket = Listening"
    by (simp add: two_connected_eq alice_socket_def)
  have h5: "authenticateSocket demo_lib (Some (ascii ''forged'')) = None
      \<and> ''s3'' \<notin> sock_id ` set (sockets two_connected)"
    by (simp add: authenticateSocket_def demo_lib_def ascii_def two_connected_eq
          alice_socket_def bob_socket_def)
  note t1 = presence_lifecycle [of "''s1''" ?hs pending_alice ?u]
  from t1 h1
  have p1: "map_of (connectedUsers (user_found ''s1'' ?hs)) alice =
      Some \<lparr>socketId = ''s1'', name = ascii ''Alice'', email = ascii ''a@ova.care''\<rparr>"
    by (simp add: pending_alice_def)
  note t2 = presence_lifecycle [of "''s1''" empty_server _ ?u demo_lib
      "Some (ascii ''token-a'')" ?d by_id]
  from t2 h2
  have p2: "map_of (connectedUsers
        (connect demo_lib by_id ''s1'' (Some (ascii ''token-a'')) empty_server)) alice =
      Some \<lparr>socketId = ''s1'', name = ascii ''Alice'', email = ascii ''a@ova.care''\<rparr>"
    by simp
  from t2 h2
  have p4: "map_of (connectedUsers (deliver demo_lib ''s1'' Disconnect
         (connect demo_lib by_id ''s1'' (Some (ascii ''token-a'')) empty_server))) alice = None"
    by simp
  note t3 = presence_lifecycle [of "''s1''" two_connected alice_socket _ demo_lib]
  from t3 h3
  have p3: "map_of (connectedUsers (deliver demo_lib ''s1'' Disconnect two_connected)) alice = None"
    by (simp add: alice_socket_def)
  note t5 = presence_lifecycle [of "''s3''" two_connected _ _ demo_lib
      "Some (ascii ''forged'')" _ by_id "[Send_message 1 1000 hello, Ping, Disconnect]"]
  from t5 h5
  have p5: "deliver_all demo_lib ''s3'' [Send_message 1 1000 hello, Ping, Disconnect]
         (connect demo_lib by_id ''s3'' (Some (ascii ''forged'')) two_connected) = two_connected"
    by blast
  have u: "User_db ?hs alice = Some ?u"
    using h1 by (simp add: pending_alice_def)
  from h1 h2 h3 h5 p1 p2 p3 p4 p5 u show ?thesis
    by blast
qed

section \<open>Acceptance of a send\<close>

lemma validate_Passed_iff:
  "validate c = Passed t \<longleftrightarrow> (\<exists>s. c = JStr s \<and> trim s \<noteq> [] \<and> length s \<le> 500 \<and> t = trim s)"
  by (cases c) (auto simp: validate_JStr simp del: validate.simps(1))

lemma Message_save_content:
  "Message_save l oid now c uid uname db = Some m \<Longrightarrow> content m = c"
  by (auto simp: Message_save_def split: option.splits if_splits)

text \<open>
  The two handlers by the shape of the content: a string that trims to nothing, a
  string longer than 500, any other string, a value that is not a string, and a
  payload without properties.
\<close>

lemma send_message_cases:
  "send_message l oid now socket data st =
     (case get_content data of
        Some (JStr s) \<Rightarrow>
          if trim s = [] then
            emit (ToSocket (sock_id socket), ''error'', error_message ''Message cannot be empty'') st
          else if 500 < length s then
            emit (ToSocket (sock_id socket), ''error'',
                  error_message ''Message too long (max 500 characters)'') st
          else
            (case Message_save l oid now (trim s) (sock_userId socket) (sock_userName socket)
                    (Message_db st) of
               None \<Rightarrow>
                 emit (ToSocket (sock_id socket), ''error'',
                       error_message ''Failed to send message'') st
             | Some m \<Rightarrow>
                 st\<lparr>Message_db := Message_db st @ [m],
                    emitted := emitted st @ fanout m (connectedUsers st) @
                      [(ToAll, ''new_message'', JObj (anonymizeMessage m None))]\<rparr>)
      | Some c \<Rightarrow>
          emit (ToSocket (sock_id socket), ''error'',
                error_message (if truthy c then ''Failed to send message''
                               else ''Message cannot be empty'')) st
      | None \<Rightarrow>
          emit (ToSocket (sock_id socket), ''error'', error_message ''Failed to send message'') st)"
  by (auto simp: send_message_def validate_JStr simp del: validate.simps(1)
           split: option.splits jsval.splits)

lemma post_chat_send_cases:
  assumes "authenticateToken l hdr = Inr u"
  shows "post_chat_send l oid now hdr body st =
     (case get_content body of
        Some (JStr s) \<Rightarrow>
          if trim s = [] then ((400, error_body ''Message cannot be empty''), st)
          else if 500 < length s then
            ((400, error_body ''Message too long (max 500 characters)''), st)
          else
            (case User_db st (d_userId u) of
               None \<Rightarrow> ((500, error_body ''Failed to send message''), st)
             | Some usr \<Rightarrow>
                 (case Message_save l oid now (trim s) (d_userId u) (Some (user_name usr))
                         (Message_db st) of
                    None \<Rightarrow> ((500, error_body ''Failed to send message''), st)
                  | Some m \<Rightarrow>
                      ((500, error_body ''Failed to send message''),
                       st\<lparr>Message_db := Message_db st @ [m],
                          emitted := emitted st @ fanout m (connectedUsers st)\<rparr>)))
      | Some c \<Rightarrow>
          (if truthy c then (500, error_body ''Failed to send message'')
           else (400, error_body ''Message cannot be empty''), st)
      | None \<Rightarrow> ((500, error_body ''Failed to send message''), st))"
  using assms
  by (auto simp: post_chat_send_def validate_JStr send_scope_def Let_def
           simp del: validate.simps(1) split: option.splits jsval.splits)


text \<open>
  Claim C4, as stated, fails in both directions. Validity is not the length of the
  trimmed content: 500 letters followed by one space are 500 characters after
  trimming, yet both the realtime handler and the REST handler reject them as too
  long, since they compare the untrimmed length with 500. And valid content alone
  does not make a send accepted: \<open>hello\<close> sent on a connection whose user lookup
  found no record passes both checks, the schema then refuses the document for its
  missing \<open>username\<close>, and nothing is persisted.
\<close>

theorem trimmed_length_counterexample:
  "length (trim padded) = 500
   \<and> send_message demo_lib 1 1000 alice_socket (JObj [(''content'', JStr padded)]) two_connected =
       emit (ToSocket ''s1'', ''error'', error_message ''Message too long (max 500 characters)'')
         two_connected
   \<and> post_chat_send demo_lib 1 1000 (Some (ascii ''Bearer token-a''))
         (JObj [(''content'', JStr padded)]) two_connected =
       ((400, error_body ''Message too long (max 500 characters)''), two_connected)
   \<and> length (trim (ascii ''hello'')) = 5
   \<and> deliver demo_lib ''s1'' (Send_message 1 1000 hello)
        (connect demo_lib by_id ''s1'' (Some (ascii ''token-a'')) unknown_user_server) =
       emit (ToSocket ''s1'', ''error'', error_message ''Failed to send message'')
         (connect demo_lib by_id ''s1'' (Some (ascii ''token-a'')) unknown_user_server)"
proof -
  have v: "validate (JStr padded) = MessageTooLong"
    by (simp add: validate_JStr trim_padded) (simp add: padded_def five_hundred_def)
  have a: "length (trim padded) = 500"
    by (simp add: trim_padded five_hundred_def)
  have b: "send_message demo_lib 1 1000 alice_socket (JObj [(''content'', JStr padded)])
      two_connected =
       emit (ToSocket ''s1'', ''error'', error_message ''Message too long (max 500 characters)'')
         two_connected"
    by (simp add: send_message_def v alice_socket_def del: validate.simps)
  have c: "post_chat_send demo_lib 1 1000 (Some (ascii ''Bearer token-a''))
         (JObj [(''content'', JStr padded)]) two_connected =
       ((400, error_body ''Message too long (max 500 characters)''), two_connected)"
    by (simp add: post_chat_send_def v authenticateToken_a del: validate.simps)
  have s: "send_message demo_lib 1 1000 nameless_socket hello
        (unknown_user_server\<lparr>sockets := [nameless_socket]\<rparr>) =
       emit (ToSocket ''s1'', ''error'', error_message ''Failed to send message'')
         (unknown_user_server\<lparr>sockets := [nameless_socket]\<rparr>)"
    by (simp add: send_message_def hello_def trim_hello Message_save_def demo_lib_def
          nameless_socket_def)
  have f: "sock_id nameless_socket = ''s1''"
    by (simp add: nameless_socket_def)
  have n: "sock_connected nameless_socket \<and> sock_stage nameless_socket = Listening"
    by (simp add: nameless_socket_def)
  have d: "deliver demo_lib ''s1'' (Send_message 1 1000 hello)
        (connect demo_lib by_id ''s1'' (Some (ascii ''token-a'')) unknown_user_server) =
       emit (ToSocket ''s1'', ''error'', error_message ''Failed to send message'')
         (connect demo_lib by_id ''s1'' (Some (ascii ''token-a'')) unknown_user_server)"
    unfolding connect_nameless by (simp add: deliver_def f n s)
  have e: "length (trim (ascii ''hello'')) = 5"
    by (simp add: trim_hello)
  show ?thesis
    by (intro conjI; fact a b c d e)
qed

text \<open>
  Claim C4, amended. A send is accepted, that is, its message is persisted (and
  then delivered), exactly when its content is a string that is not empty after
  trimming and whose untrimmed length is at most 500, and the collection accepts
  the document (on the REST path: and the sender's user record is found); the
  stored content is the trimmed string. So 500 characters that are not all
  whitespace are accepted on these terms, while a string that trims to nothing is
  rejected as empty and a longer string as too long: on the realtime path by one
  \<open>error\<close> event to the sending socket, on the REST path by a 400 response. Every
  send whose content is not such a string persists nothing and delivers nothing:
  the realtime handler emits one \<open>error\<close> event to the sending socket only, the
  REST handler leaves the server state unchanged and answers with an error status.
  The checks of the code pass exactly these strings.
\<close>

theorem send_validation:
  "((\<exists>t. validate c = Passed t) \<longleftrightarrow> (\<exists>s. c = JStr s \<and> trim s \<noteq> [] \<and> length s \<le> 500))
   \<and> ((\<exists>m. Message_db (send_message l oid now socket data st) = Message_db st @ [m]) \<longleftrightarrow>
        (\<exists>s m. get_content data = Some (JStr s) \<and> trim s \<noteq> [] \<and> length s \<le> 500
           \<and> Message_save l oid now (trim s) (sock_userId socket) (sock_userName socket)
                (Message_db st) = Some m))
   \<and> (get_content data = Some (JStr s) \<and> trim s \<noteq> [] \<and> length s \<le> 500
        \<and> Message_save l oid now (trim s) (sock_userId socket) (sock_userName socket)
             (Message_db st) = Some m \<longrightarrow>
        content m = trim s
        \<and> send_message l oid now socket data st =
            st\<lparr>Message_db := Message_db st @ [m],
               emitted := emitted st @ fanout m (connectedUsers st) @
                 [(ToAll, ''new_message'', JObj (anonymizeMessage m None))]\<rparr>)
   \<and> (get_content data = Some (JStr s) \<and> trim s = [] \<longrightarrow>
        send_message l oid now socket data st =
          emit (ToSocket (sock_id socket), ''error'', error_message ''Message cannot be empty'') st)
   \<and> (get_content data = Some (JStr s) \<and> trim s \<noteq> [] \<and> 500 < length s \<longrightarrow>
        send_message l oid now socket data st =
          emit (ToSocket (sock_id socket), ''error'',
                error_message ''Message too long (max 500 characters)'') st)
   \<and> (\<not> (\<exists>s. get_content data = Some (JStr s) \<and> trim s \<noteq> [] \<and> length s \<le> 500) \<longrightarrow>
        Message_db (send_message l oid now socket data st) = Message_db st
        \<and> (\<exists>why. emitted (send_message l oid now socket data st) =
              emitted st @ [(ToSocket (sock_id socket), ''error'', error_message why)])
        \<and> snd (post_chat_send l oid now hdr data st) = st
        \<and> fst (fst (post_chat_send l oid now hdr data st)) \<in> {400, 401, 403, 500})
   \<and> (authenticateToken l hdr = Inr u \<longrightarrow>
        ((\<exists>m. Message_db (snd (post_chat_send l oid now hdr data st)) = Message_db st @ [m]) \<longleftrightarrow>
           (\<exists>s usr m. get_content data = Some (JStr s) \<and> trim s \<noteq> [] \<and> length s \<le> 500
              \<and> User_db st (d_userId u) = Some usr
              \<and> Message_save l oid now (trim s) (d_userId u) (Some (user_name usr))
                   (Message_db st) = Some m))
        \<and> (get_content data = Some (JStr s) \<and> trim s = [] \<longrightarrow>
             post_chat_send l oid now hdr data st =
               ((400, error_body ''Message cannot be empty''), st))
        \<and> (get_content data = Some (JStr s) \<and> trim s \<noteq> [] \<and> 500 < length s \<longrightarrow>
             post_chat_send l oid now hdr data st =
               ((400, error_body ''Message too long (max 500 characters)''), st)))"
proof -
  have p1: "(\<exists>t. validate c = Passed t) \<longleftrightarrow> (\<exists>s. c = JStr s \<and> trim s \<noteq> [] \<and> length s \<le> 500)"
    by (auto simp: validate_Passed_iff)
  have p2: "(\<exists>m. Message_db (send_message l oid now socket data st) = Message_db st @ [m]) \<longleftrightarrow>
        (\<exists>s m. get_content data = Some (JStr s) \<and> trim s \<noteq> [] \<and> length s \<le> 500
           \<and> Message_save l oid now (trim s) (sock_userId socket) (sock_userName socket)
                (Message_db st) = Some m)"
    by (auto simp: send_message_cases emit_simps split: option.splits jsval.splits if_splits)
  have p3: "get_content data = Some (JStr s) \<and> trim s \<noteq> [] \<and> length s \<le> 500
        \<and> Message_save l oid now (trim s) (sock_userId socket) (sock_userName socket)
             (Message_db st) = Some m \<longrightarrow>
        content m = trim s
        \<and> send_message l oid now socket data st =
            st\<lparr>Message_db := Message_db st @ [m],
               emitted := emitted st @ fanout m (connectedUsers st) @
                 [(ToAll, ''new_message'', JObj (anonymizeMessage m None))]\<rparr>"
    by (auto simp: send_message_cases dest: Message_save_content)
  have p4: "get_content data = Some (JStr s) \<and> trim s = [] \<longrightarrow>
        send_message l oid now socket data st =
          emit (ToSocket (sock_id socket), ''error'', error_message ''Message cannot be empty'') st"
    by (simp add: send_message_cases)
  have p5: "get_content data = Some (JStr s) \<and> trim s \<noteq> [] \<and> 500 < length s \<longrightarrow>
        send_message l oid now socket data st =
          emit (ToSocket (sock_id socket), ''error'',
                error_message ''Message too long (max 500 characters)'') st"
    by (simp add: send_message_cases)
  have r: "\<not> (\<exists>s. get_content data = Some (JStr s) \<and> trim s \<noteq> [] \<and> length s \<le> 500) \<Longrightarrow>
      \<not> (\<exists>c t. get_content data = Some c \<and> validate c = Passed t)"
    by (auto simp: validate_Passed_iff)
  have p6: "\<not> (\<exists>s. get_content data = Some (JStr s) \<and> trim s \<noteq> [] \<and> length s \<le> 500) \<longrightarrow>
        Message_db (send_message l oid now socket data st) = Message_db st
        \<and> (\<exists>why. emitted (send_message l oid now socket data st) =
              emitted st @ [(ToSocket (sock_id socket), ''error'', error_message why)])
        \<and> snd (post_chat_send l oid now hdr data st) = st
        \<and> fst (fst (post_chat_send l oid now hdr data st)) \<in> {400, 401, 403, 500}"
  proof
    assume n: "\<not> (\<exists>s. get_content data = Some (JStr s) \<and> trim s \<noteq> [] \<and> length s \<le> 500)"
    from send_message_rejects [OF r [OF n], of l oid now socket st]
    obtain why where "send_message l oid now socket data st =
        emit (ToSocket (sock_id socket), ''error'', error_message why) st" by blast
    then have "Message_db (send_message l oid now socket data st) = Message_db st"
      and "\<exists>why. emitted (send_message l oid now socket data st) =
              emitted st @ [(ToSocket (sock_id socket), ''error'', error_message why)]"
      by (auto simp: emit_simps)
    with post_chat_send_rejects [OF r [OF n], of l oid now hdr st]
    show "Message_db (send_message l oid now socket data st) = Message_db st
        \<and> (\<exists>why. emitted (send_message l oid now socket data st) =
              emitted st @ [(ToSocket (sock_id socket), ''error'', error_message why)])
        \<and> snd (post_chat_send l oid now hdr data st) = st
        \<and> fst (fst (post_chat_send l oid now hdr data st)) \<in> {400, 401, 403, 500}"
      by blast
  qed
  have p7: "authenticateToken l hdr = Inr u \<longrightarrow>
        ((\<exists>m. Message_db (snd (post_chat_send l oid now hdr data st)) = Message_db st @ [m]) \<longleftrightarrow>
           (\<exists>s usr m. get_content data = Some (JStr s) \<and> trim s \<noteq> [] \<and> length s \<le> 500
              \<and> User_db st (d_userId u) = Some usr
              \<and> Message_save l oid now (trim s) (d_userId u) (Some (user_name usr))
                   (Message_db st) = Some m))
        \<and> (get_content data = Some (JStr s) \<and> trim s = [] \<longrightarrow>
             post_chat_send l oid now hdr data st =
               ((400, error_body ''Message cannot be empty''), st))
        \<and> (get_content data = Some (JStr s) \<and> trim s \<noteq> [] \<and> 500 < length s \<longrightarrow>
             post_chat_send l oid now hdr data st =
               ((400, error_body ''Message too long (max 500 characters)''), st))"
    by (auto simp: post_chat_send_cases split: option.splits jsval.splits if_splits)
  from p1 p2 p3 p4 p5 p6 p7 show ?thesis by blast
qed


theorem send_validation_witness:
  "get_content (JObj [(''content'', JStr five_hundred)]) = Some (JStr five_hundred)
   \<and> length five_hundred = 500 \<and> trim five_hundred \<noteq> []
   \<and> Message_save demo_lib 1 1000 (trim five_hundred) alice (Some (ascii ''Alice''))
        (Message_db two_connected) = Some message_500
   \<and> send_message demo_lib 1 1000 alice_socket (JObj [(''content'', JStr five_hundred)])
        two_connected =
       two_connected\<lparr>Message_db := Message_db two_connected @ [message_500],
          emitted := emitted two_connected @ fanout message_500 (connectedUsers two_connected) @
            [(ToAll, ''new_message'', JObj (anonymizeMessage message_500 None))]\<rparr>
   \<and> length five_hundred_one = 501 \<and> trim five_hundred_one \<noteq> []
   \<and> send_message demo_lib 1 1000 alice_socket (JObj [(''content'', JStr five_hundred_one)])
        two_connected =
       emit (ToSocket ''s1'', ''error'', error_message ''Message too long (max 500 characters)'')
         two_connected
   \<and> trim [0x20, 0x09] = []
   \<and> send_message demo_lib 1 1000 alice_socket (JObj [(''content'', JStr [0x20, 0x09])])
        two_connected =
       emit (ToSocket ''s1'', ''error'', error_message ''Message cannot be empty'') two_connected
   \<and> authenticateToken demo_lib (Some (ascii ''Bearer token-a'')) =
       Inr \<lparr>d_userId = alice, d_email = ascii ''a@ova.care''\<rparr>
   \<and> post_chat_send demo_lib 1 1000 (Some (ascii ''Bearer token-a''))
        (JObj [(''content'', JStr five_hundred_one)]) two_connected =
       ((400, error_body ''Message too long (max 500 characters)''), two_connected)
   \<and> (\<exists>m. Message_db (snd (post_chat_send demo_lib 1 1000 (Some (ascii ''Bearer token-a''))
        (JObj [(''content'', JStr five_hundred)]) two_connected)) = Message_db two_connected @ [m])
   \<and> \<not> (\<exists>s. get_content (JObj [(''content'', JNum 5)]) = Some (JStr s) \<and> trim s \<noteq> []
            \<and> length s \<le> 500)
   \<and> Message_db (send_message demo_lib 1 1000 alice_socket (JObj [(''content'', JNum 5)])
        two_connected) = Message_db two_connected
   \<and> snd (post_chat_send demo_lib 1 1000 (Some (ascii ''Bearer token-a''))
        (JObj [(''content'', JNum 5)]) two_connected) = two_connected
   \<and> (\<exists>t. validate (JStr five_hundred) = Passed t)
   \<and> \<not> (\<exists>t. validate (JNum 5) = Passed t)"
proof -
  let ?d500 = "JObj [(''content'', JStr five_hundred)]"
  let ?d501 = "JObj [(''content'', JStr five_hundred_one)]"
  let ?dws = "JObj [(''content'', JStr [0x20, 0x09])]"
  let ?dnum = "JObj [(''content'', JNum 5)]"
  let ?hdr = "Some (ascii ''Bearer token-a'')"
  let ?u = "\<lparr>d_userId = alice, d_email = ascii ''a@ova.care''\<rparr>"
  have g500: "get_content ?d500 = Some (JStr five_hundred)"
    by simp
  have l500: "length five_hundred = 500"
    by (simp add: five_hundred_def)
  have n500: "trim five_hundred \<noteq> []"
    by (simp add: trim_five_hundred) (simp add: five_hundred_def)
  have save: "Message_save demo_lib 1 1000 (trim five_hundred) alice (Some (ascii ''Alice''))
        (Message_db two_connected) = Some message_500"
    using n500
    by (simp add: Message_save_def demo_lib_def trim_five_hundred l500
          two_connected_fields message_500_def)
  have l501: "length five_hundred_one = 501"
    by (simp add: five_hundred_one_def)
  have n501: "trim five_hundred_one \<noteq> []"
    by (simp add: trim_five_hundred_one) (simp add: five_hundred_one_def)
  have ws: "trim [0x20, 0x09] = []"
    by (simp add: trim_def isWhiteSpace_def)
  have sid: "sock_id alice_socket = ''s1''"
    by (simp add: alice_socket_def)
  have h1: "get_content ?d500 = Some (JStr five_hundred) \<and> trim five_hundred \<noteq> []
      \<and> length five_hundred \<le> 500
      \<and> Message_save demo_lib 1 1000 (trim five_hundred) (sock_userId alice_socket)
           (sock_userName alice_socket) (Message_db two_connected) = Some message_500"
    using save n500 by (simp add: l500 alice_socket_def)
  have h2: "get_content ?d501 = Some (JStr five_hundred_one) \<and> trim five_hundred_one \<noteq> []
      \<and> 500 < length five_hundred_one"
    using n501 by (simp add: l501)
  have h3: "get_content ?dws = Some (JStr [0x20, 0x09]) \<and> trim [0x20, 0x09] = []"
    using ws by simp
  have h4: "\<not> (\<exists>s. get_content ?dnum = Some (JStr s) \<and> trim s \<noteq> [] \<and> length s \<le> 500)"
    by simp
  have h5: "\<exists>s usr m. get_content ?d500 = Some (JStr s) \<and> trim s \<noteq> [] \<and> length s \<le> 500
              \<and> User_db two_connected (d_userId ?u) = Some usr
              \<and> Message_save demo_lib 1 1000 (trim s) (d_userId ?u) (Some (user_name usr))
                   (Message_db two_connected) = Some m"
    using save n500
    by (intro exI [of _ five_hundred]
          exI [of _ "\<lparr>user_name = ascii ''Alice'', user_email = ascii ''a@ova.care''\<rparr>"]
          exI [of _ message_500])
       (simp add: l500 two_connected_fields demo_users_def)
  have h6: "\<exists>s. JStr five_hundred = JStr s \<and> trim s \<noteq> [] \<and> length s \<le> 500"
    using n500 l500 by (intro exI [of _ five_hundred]) simp
  have h7: "\<not> (\<exists>s. JNum 5 = JStr s \<and> trim s \<noteq> [] \<and> length s \<le> 500)"
    by simp
  note t1 = send_validation [of "JStr five_hundred" demo_lib 1 1000 alice_socket ?d500
      two_connected five_hundred message_500 ?hdr ?u]
  note t2 = send_validation [of "JNum 5" demo_lib 1 1000 alice_socket ?d501
      two_connected five_hundred_one message_500 ?hdr ?u]
  note t3 = send_validation [of "JNum 5" demo_lib 1 1000 alice_socket ?dws
      two_connected "[0x20, 0x09]" message_500 ?hdr ?u]
  note t4 = send_validation [of "JNum 5" demo_lib 1 1000 alice_socket ?dnum
      two_connected "[]" message_500 ?hdr ?u]
  note acc = t1 [THEN conjunct2, THEN conjunct2, THEN conjunct1, THEN mp, OF h1, THEN conjunct2]
  note rest = t1 [THEN conjunct2, THEN conjunct2, THEN conjunct2, THEN conjunct2, THEN conjunct2,
      THEN conjunct2, THEN mp, OF authenticateToken_a]
  have p1r: "\<exists>m. Message_db (snd (post_chat_send demo_lib 1 1000 ?hdr ?d500 two_connected)) =
      Message_db two_connected @ [m]"
    using rest [THEN conjunct1] h5 by (rule iffD2)
  have p1v: "\<exists>t. validate (JStr five_hundred) = Passed t"
    using t1 [THEN conjunct1] h6 by (rule iffD2)
  have p2v: "\<not> (\<exists>t. validate (JNum 5) = Passed t)"
    using t2 [THEN conjunct1] h7 by simp
  have p2: "send_message demo_lib 1 1000 alice_socket ?d501 two_connected =
       emit (ToSocket ''s1'', ''error'',
             error_message ''Message too long (max 500 characters)'') two_connected"
    using t2 [THEN conjunct2, THEN conjunct2, THEN conjunct2, THEN conjunct2, THEN conjunct1,
        THEN mp, OF h2]
    unfolding sid .
  have p2r: "post_chat_send demo_lib 1 1000 ?hdr ?d501 two_connected =
       ((400, error_body ''Message too long (max 500 characters)''), two_connected)"
    by (rule t2 [THEN conjunct2, THEN conjunct2, THEN conjunct2, THEN conjunct2, THEN conjunct2,
        THEN conjunct2, THEN mp, OF authenticateToken_a, THEN conjunct2, THEN conjunct2,
        THEN mp, OF h2])
  have p3: "send_message demo_lib 1 1000 alice_socket ?dws two_connected =
       emit (ToSocket ''s1'', ''error'', error_message ''Message cannot be empty'') two_connected"
    using t3 [THEN conjunct2, THEN conjunct2, THEN conjunct2, THEN conjunct1, THEN mp, OF h3]
    unfolding sid .
  note rej = t4 [THEN conjunct2, THEN conjunct2, THEN conjunct2, THEN conjunct2, THEN conjunct2,
      THEN conjunct1, THEN mp, OF h4]
  have p4: "Message_db (send_message demo_lib 1 1000 alice_socket ?dnum two_connected) =
       Message_db two_connected"
    by (rule rej [THEN conjunct1])
  have p4r: "snd (post_chat_send demo_lib 1 1000 ?hdr ?dnum two_connected) = two_connected"
    by (rule rej [THEN conjunct2, THEN conjunct2, THEN conjunct1])
  show ?thesis
    by (intro conjI; fact g500 l500 n500 save acc l501 n501 p2 ws p3 authenticateToken_a p2r p1r
          h4 p4 p4r p1v p2v)
qed

end
